theory Spec2Isabelle
  imports Complex_Main
begin

section \<open>Entity model\<close>

text \<open>
  The entities of \<^verbatim>\<open>game/entities\<close>. The class hierarchy below \<^verbatim>\<open>Entity\<close> is flattened
  into one record: TypeScript casts are unchecked and a property that a class does not
  declare reads as \<^verbatim>\<open>undefined\<close> (falsy), so a field that a class does not declare is
  held at \<open>False\<close> or \<open>0\<close> by that class's constructor. Coordinates, counters and points
  are integers. The source fields \<^verbatim>\<open>x\<close>, \<^verbatim>\<open>y\<close> and \<^verbatim>\<open>type\<close> are named \<open>ent_x\<close>,
  \<open>ent_y\<close> and \<open>etype\<close>.
\<close>

datatype entity_type = EMPTY | PLAYER | BOULDER | DIAMOND | DIRT | WALL | EXIT

datatype direction = UP | DOWN | LEFT | RIGHT

record entity =
  ent_x :: int
  ent_y :: int
  etype :: entity_type
  solid :: bool
  movable :: bool
  collectible :: bool
  fallable :: bool
  previousX :: int
  previousY :: int
  isAnimating :: bool
  alive :: bool
  diamondsCollected :: int
  falling :: bool
  canRoll :: bool
  points :: int
  diggable :: bool
  destructible :: bool
  isOpen :: bool
  diamondsRequired :: int

definition new_Entity :: "int \<Rightarrow> int \<Rightarrow> entity_type \<Rightarrow> entity" where
  "new_Entity x y t =
     \<lparr>ent_x = x, ent_y = y, etype = t, solid = False, movable = False,
      collectible = False, fallable = False, previousX = x, previousY = y,
      isAnimating = False, alive = False, diamondsCollected = 0, falling = False,
      canRoll = False, points = 0, diggable = False, destructible = False,
      isOpen = False, diamondsRequired = 0\<rparr>"

definition new_Player :: "int \<Rightarrow> int \<Rightarrow> entity" where
  "new_Player x y =
     (new_Entity x y PLAYER)\<lparr>solid := True, movable := True, collectible := False,
       fallable := False, alive := True, diamondsCollected := 0\<rparr>"

definition new_Boulder :: "int \<Rightarrow> int \<Rightarrow> entity" where
  "new_Boulder x y =
     (new_Entity x y BOULDER)\<lparr>solid := True, movable := True, collectible := False,
       fallable := True, falling := False, canRoll := True\<rparr>"

definition new_Diamond :: "int \<Rightarrow> int \<Rightarrow> int \<Rightarrow> entity" where
  "new_Diamond x y pts =
     (new_Entity x y DIAMOND)\<lparr>solid := False, movable := True, collectible := True,
       fallable := True, falling := False, points := pts\<rparr>"

definition new_Dirt :: "int \<Rightarrow> int \<Rightarrow> entity" where
  "new_Dirt x y =
     (new_Entity x y DIRT)\<lparr>solid := True, movable := False, collectible := False,
       fallable := False, diggable := True\<rparr>"

definition new_Wall :: "int \<Rightarrow> int \<Rightarrow> bool \<Rightarrow> entity" where
  "new_Wall x y d =
     (new_Entity x y WALL)\<lparr>solid := True, movable := False, collectible := False,
       fallable := False, destructible := d\<rparr>"

definition new_Exit :: "int \<Rightarrow> int \<Rightarrow> int \<Rightarrow> entity" where
  "new_Exit x y req =
     (new_Entity x y EXIT)\<lparr>solid := False, movable := False, collectible := False,
       fallable := False, isOpen := (req = 0), diamondsRequired := req\<rparr>"

text \<open>\<^verbatim>\<open>Entity.setPosition\<close>: the previous position and the animation flag change only
  when the position does.\<close>

definition setPosition :: "int \<Rightarrow> int \<Rightarrow> entity \<Rightarrow> entity" where
  "setPosition x y e =
     (if x \<noteq> ent_x e \<or> y \<noteq> ent_y e
      then e\<lparr>previousX := ent_x e, previousY := ent_y e, isAnimating := True,
             ent_x := x, ent_y := y\<rparr>
      else e\<lparr>ent_x := x, ent_y := y\<rparr>)"

definition resetAnimation :: "entity \<Rightarrow> entity" where
  "resetAnimation e = e\<lparr>previousX := ent_x e, previousY := ent_y e, isAnimating := False\<rparr>"

definition collectDiamond :: "entity \<Rightarrow> entity" where
  "collectDiamond p = p\<lparr>diamondsCollected := diamondsCollected p + 1\<rparr>"

definition startFalling :: "entity \<Rightarrow> entity" where
  "startFalling e = e\<lparr>falling := True\<rparr>"

definition stopFalling :: "entity \<Rightarrow> entity" where
  "stopFalling e = e\<lparr>falling := False\<rparr>"

definition dig :: "entity \<Rightarrow> entity" where
  "dig d = d\<lparr>etype := EMPTY, solid := False, diggable := False\<rparr>"

definition open_exit :: "entity \<Rightarrow> entity" where
  "open_exit e = e\<lparr>isOpen := True, solid := False\<rparr>"

definition checkOpenCondition :: "int \<Rightarrow> entity \<Rightarrow> entity" where
  "checkOpenCondition collected e =
     (if collected \<ge> diamondsRequired e \<and> \<not> isOpen e then open_exit e else e)"

section \<open>Grid store\<close>

text \<open>
  \<^verbatim>\<open>GameGrid\<close>: a \<open>width \<times> height\<close> array of optional entities, \<^verbatim>\<open>grid[y][x]\<close>. The array
  is the map \<open>cells\<close> from \<open>(x, y)\<close> to the entity the cell holds; every method checks the
  bounds before it touches the array, and the model keeps those checks. An entity object
  is referenced from at most one cell in every grid the program builds (each layout
  character creates a new object, and a move clears the source before it writes the
  destination), so an object is identified with the cell that holds it: mutating an
  object is updating the content of its cell (\<open>updEntity\<close>).
\<close>

record game_grid =
  width :: int
  height :: int
  cells :: "int \<times> int \<Rightarrow> entity option"

definition new_GameGrid :: "int \<Rightarrow> int \<Rightarrow> game_grid" where
  "new_GameGrid w h = \<lparr>width = w, height = h, cells = (\<lambda>_. None)\<rparr>"

definition isValidPosition :: "game_grid \<Rightarrow> int \<Rightarrow> int \<Rightarrow> bool" where
  "isValidPosition g x y \<longleftrightarrow> x \<ge> 0 \<and> x < width g \<and> y \<ge> 0 \<and> y < height g"

definition getEntity :: "game_grid \<Rightarrow> int \<Rightarrow> int \<Rightarrow> entity option" where
  "getEntity g x y = (if \<not> isValidPosition g x y then None else cells g (x, y))"

definition setEntity :: "game_grid \<Rightarrow> int \<Rightarrow> int \<Rightarrow> entity option \<Rightarrow> bool \<times> game_grid" where
  "setEntity g x y entity =
     (if \<not> isValidPosition g x y then (False, g)
      else (True, g\<lparr>cells := (cells g)((x, y) := map_option (setPosition x y) entity)\<rparr>))"

definition updEntity :: "game_grid \<Rightarrow> int \<Rightarrow> int \<Rightarrow> (entity \<Rightarrow> entity) \<Rightarrow> game_grid" where
  "updEntity g x y f = g\<lparr>cells := (cells g)((x, y) := map_option f (cells g (x, y)))\<rparr>"

definition moveEntity :: "game_grid \<Rightarrow> int \<Rightarrow> int \<Rightarrow> int \<Rightarrow> int \<Rightarrow> bool \<times> game_grid" where
  "moveEntity g fromX fromY toX toY =
     (if \<not> isValidPosition g fromX fromY \<or> \<not> isValidPosition g toX toY then (False, g)
      else case getEntity g fromX fromY of
        None \<Rightarrow> (False, g)
      | Some entity \<Rightarrow>
          (case getEntity g toX toY of
             Some targetEntity \<Rightarrow>
               if solid targetEntity then (False, g)
               else (let g1 = snd (setEntity g fromX fromY None);
                         g2 = snd (setEntity g1 toX toY (Some entity))
                     in (True, updEntity g2 toX toY (setPosition toX toY)))
           | None \<Rightarrow>
               (let g1 = snd (setEntity g fromX fromY None);
                    g2 = snd (setEntity g1 toX toY (Some entity))
                in (True, updEntity g2 toX toY (setPosition toX toY)))))"

definition removeEntity :: "game_grid \<Rightarrow> int \<Rightarrow> int \<Rightarrow> entity option \<times> game_grid" where
  "removeEntity g x y =
     (if \<not> isValidPosition g x y then (None, g)
      else (getEntity g x y, snd (setEntity g x y None)))"

definition isSolid :: "game_grid \<Rightarrow> int \<Rightarrow> int \<Rightarrow> bool" where
  "isSolid g x y = (case getEntity g x y of None \<Rightarrow> False | Some entity \<Rightarrow> solid entity)"

text \<open>
  \<^verbatim>\<open>findEntityByType\<close> scans the rows top to bottom and each row left to right and returns
  the first entity of the type. \<open>findCellByType\<close> is the same scan returning the cell,
  which stands for the reference to the object found.
\<close>

definition scanOrder :: "game_grid \<Rightarrow> (int \<times> int) list" where
  "scanOrder g = concat (map (\<lambda>y. map (\<lambda>x. (x, y)) [0..width g - 1]) [0..height g - 1])"

definition holdsType :: "game_grid \<Rightarrow> entity_type \<Rightarrow> int \<times> int \<Rightarrow> bool" where
  "holdsType g t c = (case cells g c of None \<Rightarrow> False | Some e \<Rightarrow> etype e = t)"

definition findCellByType :: "game_grid \<Rightarrow> entity_type \<Rightarrow> (int \<times> int) option" where
  "findCellByType g t = List.find (holdsType g t) (scanOrder g)"

definition findEntityByType :: "game_grid \<Rightarrow> entity_type \<Rightarrow> entity option" where
  "findEntityByType g t = (case findCellByType g t of None \<Rightarrow> None | Some c \<Rightarrow> cells g c)"

section \<open>Movement resolver\<close>

text \<open>
  \<^verbatim>\<open>GameLogic.movePlayer\<close> and its helpers. Every function returns its result together
  with the grid it leaves behind. The optional fields of \<^verbatim>\<open>MovementResult\<close> are options
  (\<open>None\<close> for a field the result object does not have); its field \<^verbatim>\<open>playerDied\<close> is
  named \<open>mr_playerDied\<close>. The \<^verbatim>\<open>player\<close> object is passed as its value together with
  \<open>pc\<close>, the cell that holds it.
\<close>

record movement_result =
  success :: bool
  diamondCollected :: "bool option"
  mr_playerDied :: "bool option"
  levelComplete :: "bool option"
  scoreChange :: "int option"

definition result_of :: "bool \<Rightarrow> movement_result" where
  "result_of ok = \<lparr>success = ok, diamondCollected = None, mr_playerDied = None,
                   levelComplete = None, scoreChange = None\<rparr>"

fun getDirectionVector :: "direction \<Rightarrow> int \<times> int" where
  "getDirectionVector UP = (0, -1)"
| "getDirectionVector DOWN = (0, 1)"
| "getDirectionVector LEFT = (-1, 0)"
| "getDirectionVector RIGHT = (1, 0)"

definition executePlayerMove ::
  "game_grid \<Rightarrow> entity \<Rightarrow> int \<Rightarrow> int \<Rightarrow> movement_result \<times> game_grid" where
  "executePlayerMove g player newX newY =
     (case moveEntity g (ent_x player) (ent_y player) newX newY of
        (ok, g') \<Rightarrow> (result_of ok, g'))"

definition handleDirtMovement ::
  "game_grid \<Rightarrow> entity \<Rightarrow> int \<Rightarrow> int \<Rightarrow> movement_result \<times> game_grid" where
  "handleDirtMovement g player newX newY =
     executePlayerMove (updEntity g newX newY dig) player newX newY"

definition handleDiamondCollection ::
  "game_grid \<Rightarrow> int \<times> int \<Rightarrow> entity \<Rightarrow> entity \<Rightarrow> int \<Rightarrow> int \<Rightarrow> movement_result \<times> game_grid" where
  "handleDiamondCollection g pc player diamond newX newY =
     (let g1 = updEntity g (fst pc) (snd pc) collectDiamond;
          g2 = snd (removeEntity g1 newX newY)
      in case executePlayerMove g2 (collectDiamond player) newX newY of
           (moveResult, g3) \<Rightarrow>
             (moveResult\<lparr>diamondCollected := Some True, scoreChange := Some (points diamond)\<rparr>, g3))"

definition handleBoulderPush ::
  "game_grid \<Rightarrow> entity \<Rightarrow> int \<Rightarrow> int \<Rightarrow> direction \<Rightarrow> movement_result \<times> game_grid" where
  "handleBoulderPush g player newX newY dir =
     (if dir = UP \<or> dir = DOWN then (result_of False, g)
      else case getDirectionVector dir of (dx, dy) \<Rightarrow>
        (let boulderNewX = newX + dx; boulderNewY = newY + dy
         in if \<not> isValidPosition g boulderNewX boulderNewY then (result_of False, g)
            else case getEntity g boulderNewX boulderNewY of
              Some boulderTarget \<Rightarrow> (result_of False, g)
            | None \<Rightarrow>
                (case moveEntity g newX newY boulderNewX boulderNewY of
                   (boulderMoved, g1) \<Rightarrow>
                     if \<not> boulderMoved then (result_of False, g1)
                     else executePlayerMove g1 player newX newY)))"

definition handleExitMovement ::
  "game_grid \<Rightarrow> int \<times> int \<Rightarrow> entity \<Rightarrow> entity \<Rightarrow> int \<Rightarrow> int \<Rightarrow> movement_result \<times> game_grid" where
  "handleExitMovement g pc player exit newX newY =
     (if diamondsCollected player < diamondsRequired exit then (result_of False, g)
      else if solid exit then (result_of False, g)
      else ((result_of True)\<lparr>levelComplete := Some True\<rparr>,
            updEntity g (fst pc) (snd pc) (setPosition newX newY)))"

definition movePlayer :: "game_grid \<Rightarrow> direction \<Rightarrow> movement_result \<times> game_grid" where
  "movePlayer g dir =
     (case findCellByType g PLAYER of
        None \<Rightarrow> (result_of False, g)
      | Some pc \<Rightarrow>
          (case cells g pc of
             None \<Rightarrow> (result_of False, g)
           | Some player \<Rightarrow>
               if \<not> alive player then (result_of False, g)
               else case getDirectionVector dir of (dx, dy) \<Rightarrow>
                 (let newX = ent_x player + dx; newY = ent_y player + dy
                  in if \<not> isValidPosition g newX newY then (result_of False, g)
                     else case getEntity g newX newY of
                       None \<Rightarrow> executePlayerMove g player newX newY
                     | Some targetEntity \<Rightarrow>
                         (case etype targetEntity of
                            DIRT \<Rightarrow> handleDirtMovement g player newX newY
                          | DIAMOND \<Rightarrow> handleDiamondCollection g pc player targetEntity newX newY
                          | BOULDER \<Rightarrow> handleBoulderPush g player newX newY dir
                          | WALL \<Rightarrow> (result_of False, g)
                          | EXIT \<Rightarrow> handleExitMovement g pc player targetEntity newX newY
                          | _ \<Rightarrow> (result_of False, g)))))"

definition checkLevelComplete :: "game_grid \<Rightarrow> bool" where
  "checkLevelComplete g =
     (case findEntityByType g PLAYER of
        None \<Rightarrow> False
      | Some player \<Rightarrow>
          (case findEntityByType g EXIT of
             None \<Rightarrow> False
           | Some exit \<Rightarrow>
               (let playerAtExit = (ent_x player = ent_x exit \<and> ent_y player = ent_y exit);
                    hasEnoughDiamonds = (diamondsCollected player \<ge> diamondsRequired exit)
                in playerAtExit \<and> hasEnoughDiamonds \<and> isOpen exit)))"

section \<open>Physics resolver\<close>

text \<open>
  \<^verbatim>\<open>GameLogic.updatePhysics\<close>. The \<^verbatim>\<open>boulder\<close>, \<^verbatim>\<open>diamond\<close> and \<^verbatim>\<open>entity\<close> arguments of the
  helpers are the object that the caller has just read from cell \<open>(x, y)\<close>; the model
  passes its value and mutates it in the cell that holds it.
\<close>

record step_result =
  moved :: bool
  playerKilled :: bool

definition tryMoveBoulderDown ::
  "game_grid \<Rightarrow> entity \<Rightarrow> int \<Rightarrow> int \<Rightarrow> step_result \<times> game_grid" where
  "tryMoveBoulderDown g boulder x y =
     (let belowY = y + 1
      in if \<not> isValidPosition g x belowY
         then (\<lparr>moved = False, playerKilled = False\<rparr>, updEntity g x y stopFalling)
         else case getEntity g x belowY of
           None \<Rightarrow>
             (case moveEntity (updEntity g x y startFalling) x y x belowY of
                (m, g') \<Rightarrow> (\<lparr>moved = m, playerKilled = False\<rparr>, g'))
         | Some entityBelow \<Rightarrow>
             if etype entityBelow = PLAYER \<and> falling boulder
             then (\<lparr>moved = False, playerKilled = True\<rparr>,
                   updEntity g x belowY (\<lambda>p. p\<lparr>alive := False\<rparr>))
             else (\<lparr>moved = False, playerKilled = False\<rparr>, updEntity g x y stopFalling))"

definition tryMoveDiamondDown ::
  "game_grid \<Rightarrow> entity \<Rightarrow> int \<Rightarrow> int \<Rightarrow> step_result \<times> game_grid" where
  "tryMoveDiamondDown g diamond x y =
     (let belowY = y + 1
      in if \<not> isValidPosition g x belowY
         then (\<lparr>moved = False, playerKilled = False\<rparr>, updEntity g x y stopFalling)
         else case getEntity g x belowY of
           None \<Rightarrow>
             (case moveEntity (updEntity g x y startFalling) x y x belowY of
                (m, g') \<Rightarrow> (\<lparr>moved = m, playerKilled = False\<rparr>, g'))
         | Some entityBelow \<Rightarrow>
             if etype entityBelow = PLAYER \<and> falling diamond
             then (\<lparr>moved = False, playerKilled = True\<rparr>,
                   updEntity g x belowY (\<lambda>p. p\<lparr>alive := False\<rparr>))
             else (\<lparr>moved = False, playerKilled = False\<rparr>, updEntity g x y stopFalling))"

definition tryRollDirection ::
  "game_grid \<Rightarrow> entity \<Rightarrow> int \<Rightarrow> int \<Rightarrow> int \<Rightarrow> step_result \<times> game_grid" where
  "tryRollDirection g entity x y d =
     (let sideX = x + d; diagonalY = y + 1; diagonalX = x + d
      in if \<not> isValidPosition g sideX y \<or> \<not> isValidPosition g diagonalX diagonalY
         then (\<lparr>moved = False, playerKilled = False\<rparr>, g)
         else case getEntity g sideX y of
           Some sideEntity \<Rightarrow> (\<lparr>moved = False, playerKilled = False\<rparr>, g)
         | None \<Rightarrow>
             (case getEntity g diagonalX diagonalY of
                Some diagonalEntity \<Rightarrow> (\<lparr>moved = False, playerKilled = False\<rparr>, g)
              | None \<Rightarrow>
                  (case moveEntity g x y diagonalX diagonalY of
                     (m, g') \<Rightarrow>
                       (\<lparr>moved = m, playerKilled = False\<rparr>,
                        if m \<and> (etype entity = BOULDER \<or> etype entity = DIAMOND)
                        then updEntity g' diagonalX diagonalY startFalling
                        else g'))))"

definition tryRolling :: "game_grid \<Rightarrow> entity \<Rightarrow> int \<Rightarrow> int \<Rightarrow> step_result \<times> game_grid" where
  "tryRolling g entity x y =
     (let belowY = y + 1
      in if \<not> isValidPosition g x belowY then (\<lparr>moved = False, playerKilled = False\<rparr>, g)
         else case getEntity g x belowY of
           None \<Rightarrow> (\<lparr>moved = False, playerKilled = False\<rparr>, g)
         | Some entityBelow \<Rightarrow>
             (let isBottomRollable = (etype entityBelow = BOULDER \<or> etype entityBelow = DIAMOND);
                  isBottomFalling = falling entityBelow
              in if \<not> isBottomRollable \<or> isBottomFalling
                 then (\<lparr>moved = False, playerKilled = False\<rparr>, g)
                 else case tryRollDirection g entity x y 1 of
                   (rollResult, g') \<Rightarrow>
                     if moved rollResult then (rollResult, g')
                     else tryRollDirection g' entity x y (-1)))"

record physics_result =
  entityMoved :: bool
  playerDied :: bool

text \<open>The body of the inner loop of the first pass (gravity), at cell \<open>(x, y)\<close>.\<close>

definition fallCell ::
  "int \<Rightarrow> int \<Rightarrow> physics_result \<times> game_grid \<Rightarrow> physics_result \<times> game_grid" where
  "fallCell x y s =
     (case s of (r, g) \<Rightarrow>
        (case getEntity g x y of
           None \<Rightarrow> (r, g)
         | Some entity \<Rightarrow>
             if etype entity = BOULDER \<or> etype entity = DIAMOND then
               (case (if etype entity = BOULDER then tryMoveBoulderDown g entity x y
                      else tryMoveDiamondDown g entity x y) of
                  (moveResult, g1) \<Rightarrow>
                    (let r1 = (if moved moveResult then r\<lparr>entityMoved := True\<rparr> else r);
                         g2 = (if moved moveResult then g1
                               else if isValidPosition g1 x (y + 1) \<and> getEntity g1 x (y + 1) \<noteq> None
                               then (case getEntity g1 x y of
                                       Some b \<Rightarrow> if falling b then updEntity g1 x y stopFalling else g1
                                     | None \<Rightarrow> g1)
                               else g1);
                         r2 = (if playerKilled moveResult then r1\<lparr>playerDied := True\<rparr> else r1)
                     in (r2, g2)))
             else (r, g)))"

text \<open>The body of the inner loop of the second pass (rolling), at cell \<open>(x, y)\<close>.\<close>

definition rollCell ::
  "int \<Rightarrow> int \<Rightarrow> physics_result \<times> game_grid \<Rightarrow> physics_result \<times> game_grid" where
  "rollCell x y s =
     (case s of (r, g) \<Rightarrow>
        (case getEntity g x y of
           None \<Rightarrow> (r, g)
         | Some entity \<Rightarrow>
             if etype entity = BOULDER \<or> etype entity = DIAMOND then
               (case tryRolling g entity x y of
                  (rollResult, g1) \<Rightarrow>
                    (let r1 = (if moved rollResult then r\<lparr>entityMoved := True\<rparr> else r);
                         r2 = (if playerKilled rollResult then r1\<lparr>playerDied := True\<rparr> else r1)
                     in (r2, g1)))
             else (r, g)))"

text \<open>A pass: rows from \<open>height - 2\<close> down to \<open>0\<close>, columns from \<open>0\<close> to \<open>width - 1\<close>.\<close>

definition scanPass ::
  "(int \<Rightarrow> int \<Rightarrow> physics_result \<times> game_grid \<Rightarrow> physics_result \<times> game_grid) \<Rightarrow>
   int \<Rightarrow> int \<Rightarrow> physics_result \<times> game_grid \<Rightarrow> physics_result \<times> game_grid" where
  "scanPass body w h s =
     fold (\<lambda>y. fold (\<lambda>x. body x y) [0..w - 1]) (rev [0..h - 2]) s"

definition gravityPass :: "game_grid \<Rightarrow> physics_result \<times> game_grid" where
  "gravityPass g =
     scanPass fallCell (width g) (height g) (\<lparr>entityMoved = False, playerDied = False\<rparr>, g)"

definition updatePhysics :: "game_grid \<Rightarrow> physics_result \<times> game_grid" where
  "updatePhysics g = scanPass rollCell (width g) (height g) (gravityPass g)"

section \<open>Level\<close>

text \<open>
  \<^verbatim>\<open>Level\<close> builds its grid from the layout, one string per row. The cached \<^verbatim>\<open>player\<close>
  reference of the class is not a field of the record: the engine reads it only for an
  event payload, and \<open>isComplete\<close>, the one method here that reads it, takes the current
  value of the object it refers to as its argument \<open>player\<close> (\<open>None\<close> for \<^verbatim>\<open>null\<close>). The
  reference is set to the player that the layout creates, and while that object is in the
  grid of a layout with one \<^verbatim>\<open>@\<close> its current value is \<open>findEntityByType (grid lv) PLAYER\<close>.
  The fields \<^verbatim>\<open>name\<close>, \<^verbatim>\<open>diamondsRequired\<close> and \<^verbatim>\<open>timeLimit\<close> of \<^verbatim>\<open>LevelData\<close> carry the
  prefix \<open>ld_\<close>, \<^verbatim>\<open>name\<close> and \<^verbatim>\<open>diamondsRequired\<close> of \<^verbatim>\<open>Level\<close> the prefix \<open>lv_\<close>.
  Times in seconds are real numbers.
\<close>

record level_data =
  ld_name :: string
  ld_diamondsRequired :: int
  ld_timeLimit :: real
  layout :: "string list"

record level =
  grid :: game_grid
  lv_name :: string
  lv_diamondsRequired :: int
  timeLimit :: real

definition createEntityFromChar :: "int \<Rightarrow> char \<Rightarrow> int \<Rightarrow> int \<Rightarrow> entity option" where
  "createEntityFromChar req c x y =
     (if c = CHR ''@'' then Some (new_Player x y)
      else if c = CHR ''#'' then Some (new_Wall x y False)
      else if c = CHR ''.'' then Some (new_Dirt x y)
      else if c = CHR ''*'' then Some (new_Diamond x y 10)
      else if c = CHR ''O'' then Some (new_Boulder x y)
      else if c = CHR ''E'' then Some (new_Exit x y req)
      else None)"

definition loadRow :: "int \<Rightarrow> int \<Rightarrow> string \<Rightarrow> game_grid \<Rightarrow> game_grid" where
  "loadRow req y row g =
     fold (\<lambda>(x, c) g'. case createEntityFromChar req c x y of
                          None \<Rightarrow> g'
                        | Some entity \<Rightarrow> snd (setEntity g' x y (Some entity)))
          (zip [0..int (length row) - 1] row) g"

definition loadLayout :: "int \<Rightarrow> string list \<Rightarrow> game_grid \<Rightarrow> game_grid" where
  "loadLayout req rows g =
     fold (\<lambda>(y, row) g'. if y < height g then loadRow req y row g' else g')
          (zip [0..int (length rows) - 1] rows) g"

definition new_Level :: "level_data \<Rightarrow> level" where
  "new_Level ld =
     (let h = int (length (layout ld));
          w = (if length (layout ld) > 0 then Max (set (map (\<lambda>row. int (length row)) (layout ld)))
               else 0)
      in \<lparr>grid = loadLayout (ld_diamondsRequired ld) (layout ld) (new_GameGrid w h),
          lv_name = ld_name ld,
          lv_diamondsRequired = ld_diamondsRequired ld,
          timeLimit = ld_timeLimit ld\<rparr>)"


section \<open>Turn scheduler\<close>

text \<open>
  \<^verbatim>\<open>GameEngine\<close>. The engine state is the record \<open>game_state\<close>; the events the engine
  emits are appended to \<open>events\<close> in the order of emission (payloads, timestamps and the
  listeners are left out: they do not feed back into the state). Every reading of
  \<^verbatim>\<open>Date.now()\<close> that the state depends on is a parameter, in milliseconds:
  \<open>currentTime\<close> in \<open>update\<close>, \<open>tAction\<close> in \<open>determinePlayerAction\<close> and \<open>tClear\<close> at the
  end of \<open>processTurn\<close>. \<^verbatim>\<open>GameEngine.updatePhysics\<close> is named \<open>enginePhysics\<close>, and the
  exit check that \<^verbatim>\<open>processMovement\<close> makes after a diamond is \<open>openExitIfDue\<close>.
\<close>

datatype game_event =
  LEVEL_LOADED | DIAMOND_COLLECTED | LEVEL_COMPLETE | PLAYER_DIED | GAME_OVER
| LIFE_LOST | PAUSE_TOGGLED | GAME_RESET

record game_state =
  level :: level
  levelData :: level_data
  score :: int
  lives :: int
  timeRemaining :: real
  isPlaying :: bool
  isPaused :: bool
  gameMessage :: string
  currentTurn :: int
  lastTurnTime :: int
  turnProgress :: real
  currentlyPressedDirection :: "direction option"
  lastPressedDirection :: "direction option"
  lastPressTime :: int
  events :: "game_event list"

definition TURN_DURATION_MS :: int where
  "TURN_DURATION_MS = 200"

definition new_GameEngine :: "level \<Rightarrow> level_data \<Rightarrow> int \<Rightarrow> game_state" where
  "new_GameEngine initialLevel ld now =
     \<lparr>level = initialLevel, levelData = ld, score = 0, lives = 3,
      timeRemaining = timeLimit initialLevel, isPlaying = True, isPaused = False,
      gameMessage = [], currentTurn = 0, lastTurnTime = now, turnProgress = 0,
      currentlyPressedDirection = None, lastPressedDirection = None, lastPressTime = 0,
      events = []\<rparr>"

definition emitEvent :: "game_event \<Rightarrow> game_state \<Rightarrow> game_state" where
  "emitEvent ev s = s\<lparr>events := events s @ [ev]\<rparr>"

definition setGrid :: "game_grid \<Rightarrow> game_state \<Rightarrow> game_state" where
  "setGrid g s = s\<lparr>level := (level s)\<lparr>grid := g\<rparr>\<rparr>"


definition resetAllEntityAnimations :: "game_state \<Rightarrow> game_state" where
  "resetAllEntityAnimations s =
     setGrid (fold (\<lambda>c g. updEntity g (fst c) (snd c) resetAnimation)
                   (scanOrder (grid (level s))) (grid (level s))) s"

definition determinePlayerAction :: "game_state \<Rightarrow> int \<Rightarrow> direction option" where
  "determinePlayerAction s tAction =
     (case currentlyPressedDirection s of
        Some d \<Rightarrow> Some d
      | None \<Rightarrow>
          (case lastPressedDirection s of
             Some d \<Rightarrow> if tAction - lastPressTime s \<le> TURN_DURATION_MS then Some d else None
           | None \<Rightarrow> None))"

definition handlePlayerDeath :: "game_state \<Rightarrow> game_state" where
  "handlePlayerDeath s =
     (let s1 = emitEvent PLAYER_DIED (s\<lparr>lives := lives s - 1\<rparr>)
      in if lives s1 \<le> 0 then emitEvent GAME_OVER (s1\<lparr>isPlaying := False\<rparr>)
         else s1\<lparr>level := new_Level (levelData s1), isPlaying := True\<rparr>)"

definition openExitIfDue :: "game_grid \<Rightarrow> game_grid" where
  "openExitIfDue g =
     (case findEntityByType g PLAYER of
        None \<Rightarrow> g
      | Some player \<Rightarrow>
          (case findCellByType g EXIT of
             None \<Rightarrow> g
           | Some ec \<Rightarrow> updEntity g (fst ec) (snd ec) (checkOpenCondition (diamondsCollected player))))"

definition processMovement :: "direction \<Rightarrow> game_state \<Rightarrow> game_state" where
  "processMovement dir s =
     (case movePlayer (grid (level s)) dir of
        (result, g) \<Rightarrow>
          (let s0 = setGrid g s
           in if success result then
                (let s1 = (if diamondCollected result = Some True
                           then setGrid (openExitIfDue g)
                                  (emitEvent DIAMOND_COLLECTED
                                     (s0\<lparr>score := score s0 +
                                           (case scoreChange result of
                                              Some c \<Rightarrow> if c = 0 then 10 else c
                                            | None \<Rightarrow> 10)\<rparr>))
                           else s0);
                     s2 = (if levelComplete result = Some True
                           then emitEvent LEVEL_COMPLETE (s1\<lparr>isPlaying := False\<rparr>)
                           else s1)
                 in if mr_playerDied result = Some True then handlePlayerDeath s2 else s2)
              else s0))"

definition enginePhysics :: "game_state \<Rightarrow> game_state" where
  "enginePhysics s =
     (case updatePhysics (grid (level s)) of
        (result, g) \<Rightarrow>
          (let s1 = setGrid g s
           in if playerDied result then handlePlayerDeath s1 else s1))"

definition checkGameConditions :: "game_state \<Rightarrow> game_state" where
  "checkGameConditions s =
     (let s1 = (if checkLevelComplete (grid (level s))
                then emitEvent LEVEL_COMPLETE (s\<lparr>isPlaying := False\<rparr>) else s)
      in if lives s1 \<le> 0 then emitEvent GAME_OVER (s1\<lparr>isPlaying := False\<rparr>) else s1)"

definition processTurn :: "game_state \<Rightarrow> int \<Rightarrow> int \<Rightarrow> game_state" where
  "processTurn s tAction tClear =
     (let s1 = resetAllEntityAnimations s;
          s2 = (case determinePlayerAction s1 tAction of
                  Some playerAction \<Rightarrow> processMovement playerAction s1
                | None \<Rightarrow> s1);
          s3 = enginePhysics s2;
          s4 = checkGameConditions s3
      in if tClear - lastPressTime s4 > TURN_DURATION_MS
         then s4\<lparr>lastPressedDirection := None\<rparr> else s4)"

definition handleTimeUp :: "game_state \<Rightarrow> game_state" where
  "handleTimeUp s =
     (let s1 = s\<lparr>lives := lives s - 1\<rparr>
      in if lives s1 > 0
         then emitEvent LIFE_LOST (s1\<lparr>timeRemaining := timeLimit (level s1)\<rparr>)
         else emitEvent GAME_OVER (s1\<lparr>isPlaying := False\<rparr>))"

text \<open>The first half of \<^verbatim>\<open>update\<close>: the turn progress and, when a turn is due, the turn.\<close>

definition turnPhase :: "game_state \<Rightarrow> int \<Rightarrow> int \<Rightarrow> int \<Rightarrow> game_state" where
  "turnPhase s currentTime tAction tClear =
     (let timeSinceLastTurn = currentTime - lastTurnTime s;
          s1 = s\<lparr>turnProgress := min (real_of_int timeSinceLastTurn / real_of_int TURN_DURATION_MS) 1\<rparr>
      in if timeSinceLastTurn \<ge> TURN_DURATION_MS
         then (let s2 = processTurn s1 tAction tClear
               in s2\<lparr>lastTurnTime := currentTime, currentTurn := currentTurn s2 + 1,
                     turnProgress := 0\<rparr>)
         else s1)"

definition update :: "game_state \<Rightarrow> real \<Rightarrow> int \<Rightarrow> int \<Rightarrow> int \<Rightarrow> game_state" where
  "update s deltaTime currentTime tAction tClear =
     (if \<not> isPlaying s \<or> isPaused s then s
      else (let s1 = turnPhase s currentTime tAction tClear;
                s2 = s1\<lparr>timeRemaining := timeRemaining s1 - deltaTime\<rparr>
            in if timeRemaining s2 \<le> 0 then handleTimeUp s2 else s2))"

section \<open>MovementSystem\<close>

text \<open>
  The class \<^verbatim>\<open>MovementSystem\<close> of \<^verbatim>\<open>game/core\<close>, the resolver that \<^verbatim>\<open>GameController\<close> runs on
  the grid of its level. Its methods have the names of the \<^verbatim>\<open>GameLogic\<close> ones and carry the
  prefix \<open>ms_\<close> here, as do the fields of its \<^verbatim>\<open>MovementResult\<close>. The message of a result is
  a constructor holding the number that the text prints. As in \<open>movePlayer\<close>, the \<^verbatim>\<open>player\<close>
  object is passed as its value together with \<open>pc\<close>, the cell that holds it. The player
  that \<^verbatim>\<open>handleExitMovement\<close> takes out of its cell is from then on only reachable through
  the cached reference of \<^verbatim>\<open>Level\<close>; its value is \<open>setPosition newX newY player\<close>.
\<close>

datatype message = NeedMoreDiamonds int | LevelCompleteWellDone

record ms_movement_result =
  ms_success :: bool
  ms_diamondCollected :: "bool option"
  ms_playerDied :: "bool option"
  ms_message :: "message option"

definition ms_result_of :: "bool \<Rightarrow> ms_movement_result" where
  "ms_result_of ok = \<lparr>ms_success = ok, ms_diamondCollected = None, ms_playerDied = None,
                      ms_message = None\<rparr>"

fun ms_getDirectionVector :: "direction \<Rightarrow> int \<times> int" where
  "ms_getDirectionVector UP = (0, -1)"
| "ms_getDirectionVector DOWN = (0, 1)"
| "ms_getDirectionVector LEFT = (-1, 0)"
| "ms_getDirectionVector RIGHT = (1, 0)"

definition ms_movePlayerToPosition ::
  "game_grid \<Rightarrow> entity \<Rightarrow> int \<Rightarrow> int \<Rightarrow> ms_movement_result \<times> game_grid" where
  "ms_movePlayerToPosition g player newX newY =
     (case moveEntity g (ent_x player) (ent_y player) newX newY of
        (ok, g') \<Rightarrow> (ms_result_of ok, g'))"

definition ms_handleDirtMovement ::
  "game_grid \<Rightarrow> entity \<Rightarrow> int \<Rightarrow> int \<Rightarrow> ms_movement_result \<times> game_grid" where
  "ms_handleDirtMovement g player newX newY =
     ms_movePlayerToPosition (updEntity g newX newY dig) player newX newY"

definition ms_handleDiamondCollection ::
  "game_grid \<Rightarrow> int \<times> int \<Rightarrow> entity \<Rightarrow> int \<Rightarrow> int \<Rightarrow> ms_movement_result \<times> game_grid" where
  "ms_handleDiamondCollection g pc player newX newY =
     (let g1 = updEntity g (fst pc) (snd pc) collectDiamond;
          g2 = snd (removeEntity g1 newX newY)
      in case ms_movePlayerToPosition g2 (collectDiamond player) newX newY of
           (moveResult, g3) \<Rightarrow> (moveResult\<lparr>ms_diamondCollected := Some True\<rparr>, g3))"

definition ms_handleBoulderPush ::
  "game_grid \<Rightarrow> entity \<Rightarrow> int \<Rightarrow> int \<Rightarrow> direction \<Rightarrow> ms_movement_result \<times> game_grid" where
  "ms_handleBoulderPush g player newX newY dir =
     (case ms_getDirectionVector dir of (dx, dy) \<Rightarrow>
        (let boulderNewX = newX + dx; boulderNewY = newY + dy
         in if \<not> isValidPosition g boulderNewX boulderNewY then (ms_result_of False, g)
            else case getEntity g boulderNewX boulderNewY of
              Some boulderTarget \<Rightarrow> (ms_result_of False, g)
            | None \<Rightarrow>
                (case moveEntity g newX newY boulderNewX boulderNewY of
                   (boulderMoved, g1) \<Rightarrow>
                     if \<not> boulderMoved then (ms_result_of False, g1)
                     else ms_movePlayerToPosition g1 player newX newY)))"

definition ms_handleExitMovement ::
  "game_grid \<Rightarrow> int \<times> int \<Rightarrow> entity \<Rightarrow> entity \<Rightarrow> int \<Rightarrow> int \<Rightarrow> ms_movement_result \<times> game_grid" where
  "ms_handleExitMovement g pc player exit newX newY =
     (if diamondsCollected player < diamondsRequired exit
      then ((ms_result_of False)
              \<lparr>ms_message := Some (NeedMoreDiamonds (diamondsRequired exit - diamondsCollected player))\<rparr>,
            g)
      else if solid exit then (ms_result_of False, g)
      else (let g1 = updEntity g (fst pc) (snd pc) (setPosition newX newY);
                g2 = snd (setEntity g1 (ent_x player) (ent_y player) None)
            in ((ms_result_of True)\<lparr>ms_message := Some LevelCompleteWellDone\<rparr>, g2)))"

definition ms_movePlayer :: "game_grid \<Rightarrow> direction \<Rightarrow> ms_movement_result \<times> game_grid" where
  "ms_movePlayer g dir =
     (case findCellByType g PLAYER of
        None \<Rightarrow> (ms_result_of False, g)
      | Some pc \<Rightarrow>
          (case cells g pc of
             None \<Rightarrow> (ms_result_of False, g)
           | Some player \<Rightarrow>
               if \<not> alive player then (ms_result_of False, g)
               else case ms_getDirectionVector dir of (dx, dy) \<Rightarrow>
                 (let newX = ent_x player + dx; newY = ent_y player + dy
                  in if \<not> isValidPosition g newX newY then (ms_result_of False, g)
                     else case getEntity g newX newY of
                       None \<Rightarrow> ms_movePlayerToPosition g player newX newY
                     | Some targetEntity \<Rightarrow>
                         (case etype targetEntity of
                            DIRT \<Rightarrow> ms_handleDirtMovement g player newX newY
                          | DIAMOND \<Rightarrow> ms_handleDiamondCollection g pc player newX newY
                          | BOULDER \<Rightarrow> ms_handleBoulderPush g player newX newY dir
                          | WALL \<Rightarrow> (ms_result_of False, g)
                          | EXIT \<Rightarrow> ms_handleExitMovement g pc player targetEntity newX newY
                          | _ \<Rightarrow> (ms_result_of False, g)))))"

section \<open>PhysicsSystem\<close>














section \<open>Example inputs\<close>

text \<open>The examples are levels built from layouts, as \<^verbatim>\<open>new Level(levelData)\<close> builds them.\<close>

definition level_of :: "int \<Rightarrow> string list \<Rightarrow> level_data" where
  "level_of req rows =
     \<lparr>ld_name = ''example'', ld_diamondsRequired = req, ld_timeLimit = 120, layout = rows\<rparr>"

definition store_example :: game_grid where
  "store_example = grid (new_Level (level_of 0 [''O #'']))"

definition diamond_example :: game_grid where
  "diamond_example = grid (new_Level (level_of 10 [''@*E'']))"

definition push_example :: game_grid where
  "push_example = grid (new_Level (level_of 0 ['' '', ''O'', ''@'']))"

definition side_push_example :: game_grid where
  "side_push_example = grid (new_Level (level_of 0 [''@O '']))"

definition crush_example :: game_grid where
  "crush_example = snd (updatePhysics (grid (new_Level (level_of 0 [''O'', '' '', ''@'']))))"

definition fallen_boulder :: entity where
  "fallen_boulder = setPosition 0 1 (startFalling (new_Boulder 0 0))"

definition rest_example :: game_grid where
  "rest_example = grid (new_Level (level_of 0 [''*'', ''@'']))"

definition roll_example :: game_grid where
  "roll_example = grid (new_Level (level_of 0 ['' O '', '' O '']))"

definition roll_left_example :: game_grid where
  "roll_left_example = grid (new_Level (level_of 0 ['' *#'', '' O '']))"


definition exit_example :: game_grid where
  "exit_example = grid (new_Level (level_of 0 [''@E'']))"

definition exit_level :: level_data where
  "exit_level = level_of 3 [''@E'']"

definition no_result :: physics_result where
  "no_result = \<lparr>entityMoved = False, playerDied = False\<rparr>"

definition fall_roll_example :: game_grid where
  "fall_roll_example = grid (new_Level (level_of 0 [''O '', ''  '', ''O '']))"

definition shaft_example :: game_grid where
  "shaft_example = grid (new_Level (level_of 0 [''O'', '' '', '' '']))"

definition show_cell :: "entity option \<Rightarrow> (entity_type \<times> int \<times> int \<times> bool) option" where
  "show_cell = map_option (\<lambda>e. (etype e, ent_x e, ent_y e, falling e))"

definition show_grid :: "game_grid \<Rightarrow> (entity_type \<times> int \<times> int \<times> bool) option list" where
  "show_grid g = map (\<lambda>c. show_cell (cells g c)) (scanOrder g)"

definition timeup_level :: level_data where
  "timeup_level = level_of 0 [''@O'', ''  '']"

definition timeup_state :: game_state where
  "timeup_state = new_GameEngine (new_Level timeup_level) timeup_level 0"

definition last_life_state :: game_state where
  "last_life_state = timeup_state\<lparr>lives := 1\<rparr>"

definition timeup_after :: game_state where
  "timeup_after = update timeup_state 120 120000 120000 120000"

definition push_down_example :: game_grid where
  "push_down_example = grid (new_Level (level_of 0 [''@'', ''O'', '' '']))"












section \<open>Properties\<close>

subsection \<open>Grid store\<close>

lemma setPosition_pos [simp]:
  "ent_x (setPosition x y e) = x" "ent_y (setPosition x y e) = y"
  by (simp_all add: setPosition_def)

lemma setPosition_idem [simp]: "setPosition x y (setPosition x y e) = setPosition x y e"
  by (simp add: setPosition_def)

lemma setPosition_fields [simp]:
  "etype (setPosition x y e) = etype e"
  "solid (setPosition x y e) = solid e"
  "falling (setPosition x y e) = falling e"
  "alive (setPosition x y e) = alive e"
  "diamondsCollected (setPosition x y e) = diamondsCollected e"
  "diamondsRequired (setPosition x y e) = diamondsRequired e"
  "isOpen (setPosition x y e) = isOpen e"
  "points (setPosition x y e) = points e"
  by (simp_all add: setPosition_def)

lemma updEntity_dims [simp]:
  "width (updEntity g x y f) = width g"
  "height (updEntity g x y f) = height g"
  "isValidPosition (updEntity g x y f) a b = isValidPosition g a b"
  by (simp_all add: updEntity_def isValidPosition_def)

lemma cells_updEntity:
  "cells (updEntity g x y f) c = (if c = (x, y) then map_option f (cells g c) else cells g c)"
  by (simp add: updEntity_def)

lemma getEntity_updEntity:
  "getEntity (updEntity g x y f) a b =
     (if (a, b) = (x, y) then map_option f (getEntity g a b) else getEntity g a b)"
  by (simp add: getEntity_def cells_updEntity)

lemma getEntity_valid: "isValidPosition g x y \<Longrightarrow> getEntity g x y = cells g (x, y)"
  by (simp add: getEntity_def)

lemma moveEntity_invalid:
  "\<not> isValidPosition g fx fy \<or> \<not> isValidPosition g tx ty \<Longrightarrow> moveEntity g fx fy tx ty = (False, g)"
  by (auto simp add: moveEntity_def)

lemma moveEntity_empty_source:
  "getEntity g fx fy = None \<Longrightarrow> moveEntity g fx fy tx ty = (False, g)"
  by (simp add: moveEntity_def)

lemma moveEntity_blocked:
  "getEntity g fx fy = Some e \<Longrightarrow> isSolid g tx ty \<Longrightarrow> moveEntity g fx fy tx ty = (False, g)"
  by (auto simp add: moveEntity_def isSolid_def split: option.splits)

lemma moveEntity_moves:
  assumes "isValidPosition g fx fy" "isValidPosition g tx ty"
    and "getEntity g fx fy = Some e" and "\<not> isSolid g tx ty"
  shows "moveEntity g fx fy tx ty =
           (True, g\<lparr>cells := ((cells g)((fx, fy) := None))((tx, ty) := Some (setPosition tx ty e))\<rparr>)"
  using assms
  by (auto simp add: moveEntity_def isSolid_def setEntity_def updEntity_def isValidPosition_def
      split: option.splits)

text \<open>
  Claim C8. A grid store operation at an out-of-bounds coordinate returns \<open>None\<close> or
  \<open>False\<close> and leaves the grid as it was (the model has no raising branch: the source
  indexes the array only behind the bounds check). A move of the entity \<open>e\<close> held by an
  in-bounds source to an in-bounds destination fails, with the grid unchanged, when the
  destination holds a solid entity; otherwise it succeeds, and the grid it leaves is the
  old one with the source cleared and the destination holding \<open>e\<close> with its stored
  coordinates set to the destination. (A move from a cell that holds nothing fails too.)
\<close>

theorem grid_store_fails_closed_and_moves:
  "(\<not> isValidPosition g x y \<longrightarrow>
      getEntity g x y = None \<and> setEntity g x y ent = (False, g) \<and> removeEntity g x y = (None, g)
      \<and> moveEntity g x y tx ty = (False, g) \<and> moveEntity g fx fy x y = (False, g))
   \<and> (isValidPosition g fx fy \<and> isValidPosition g tx ty \<and> getEntity g fx fy = Some e \<longrightarrow>
        (isSolid g tx ty \<longrightarrow> moveEntity g fx fy tx ty = (False, g))
      \<and> (\<not> isSolid g tx ty \<longrightarrow>
            moveEntity g fx fy tx ty =
              (True, g\<lparr>cells := ((cells g)((fx, fy) := None))((tx, ty) := Some (setPosition tx ty e))\<rparr>)
          \<and> ent_x (setPosition tx ty e) = tx \<and> ent_y (setPosition tx ty e) = ty))
   \<and> (getEntity g fx fy = None \<longrightarrow> moveEntity g fx fy tx ty = (False, g))"
proof -
  have oob: "\<not> isValidPosition g x y \<Longrightarrow>
      getEntity g x y = None \<and> setEntity g x y ent = (False, g) \<and> removeEntity g x y = (None, g)
      \<and> moveEntity g x y tx ty = (False, g) \<and> moveEntity g fx fy x y = (False, g)"
    by (simp add: getEntity_def setEntity_def removeEntity_def moveEntity_invalid)
  show ?thesis
    using oob moveEntity_blocked moveEntity_moves moveEntity_empty_source by simp
qed

theorem grid_store_fails_closed_and_moves_witness:
  "show_grid store_example = [Some (BOULDER, 0, 0, False), None, Some (WALL, 2, 0, False)]
   \<and> \<not> isValidPosition store_example 3 0
   \<and> getEntity store_example 3 0 = None
   \<and> setEntity store_example 3 0 (Some (new_Boulder 0 0)) = (False, store_example)
   \<and> removeEntity store_example 3 0 = (None, store_example)
   \<and> moveEntity store_example 3 0 1 0 = (False, store_example)
   \<and> moveEntity store_example 0 0 3 0 = (False, store_example)
   \<and> isValidPosition store_example 0 0 \<and> isValidPosition store_example 1 0
   \<and> isValidPosition store_example 2 0
   \<and> getEntity store_example 0 0 = Some (new_Boulder 0 0)
   \<and> isSolid store_example 2 0
   \<and> moveEntity store_example 0 0 2 0 = (False, store_example)
   \<and> \<not> isSolid store_example 1 0
   \<and> moveEntity store_example 0 0 1 0 =
       (True, store_example\<lparr>cells := (cells store_example)((0, 0) := None,
                (1, 0) := Some (setPosition 1 0 (new_Boulder 0 0)))\<rparr>)
   \<and> show_grid (snd (moveEntity store_example 0 0 1 0))
       = [None, Some (BOULDER, 1, 0, False), Some (WALL, 2, 0, False)]
   \<and> getEntity store_example 1 0 = None
   \<and> moveEntity store_example 1 0 0 0 = (False, store_example)"
proof -
  have g: "show_grid store_example = [Some (BOULDER, 0, 0, False), None, Some (WALL, 2, 0, False)]"
    by code_simp
  have o: "\<not> isValidPosition store_example 3 0" by code_simp
  have v: "isValidPosition store_example 0 0" "isValidPosition store_example 1 0"
    "isValidPosition store_example 2 0" by code_simp+
  have e: "getEntity store_example 0 0 = Some (new_Boulder 0 0)"
    "getEntity store_example 1 0 = None" by code_simp+
  have s: "isSolid store_example 2 0" "\<not> isSolid store_example 1 0" by code_simp+
  have r: "show_grid (snd (moveEntity store_example 0 0 1 0))
       = [None, Some (BOULDER, 1, 0, False), Some (WALL, 2, 0, False)]" by code_simp
  from g o v e s r
    grid_store_fails_closed_and_moves
      [of store_example 3 0 "Some (new_Boulder 0 0)" 1 0 0 0 "new_Boulder 0 0"]
    grid_store_fails_closed_and_moves
      [of store_example 3 0 "Some (new_Boulder 0 0)" 2 0 0 0 "new_Boulder 0 0"]
    grid_store_fails_closed_and_moves
      [of store_example 3 0 "Some (new_Boulder 0 0)" 0 0 1 0 "new_Boulder 0 0"]
  show ?thesis by blast
qed

subsection \<open>Iteration\<close>

text \<open>An invariant of the body of a loop is an invariant of the loop, also when two are nested.\<close>

lemma fold_invariant:
  assumes "\<And>a s. a \<in> set xs \<Longrightarrow> I s \<Longrightarrow> I (f a s)" and "I s"
  shows "I (fold f xs s)"
  using assms by (induction xs arbitrary: s) auto

lemma rows_invariant:
  assumes "\<And>a b s. a \<in> set xs \<Longrightarrow> b \<in> set ys \<Longrightarrow> I s \<Longrightarrow> I (body a b s)" and "I s"
  shows "I (fold (\<lambda>b. fold (\<lambda>a. body a b) xs) ys s)"
  using assms(2)
proof (rule fold_invariant [where I = I, rotated])
  fix b s assume "b \<in> set ys" "I s"
  then show "I (fold (\<lambda>a. body a b) xs s)"
    using assms(1) by (intro fold_invariant [where I = I]) auto
qed

subsection \<open>Finding entities\<close>

lemma scanOrder_valid: "c \<in> set (scanOrder g) \<longleftrightarrow> isValidPosition g (fst c) (snd c)"
  by (cases c) (force simp add: scanOrder_def isValidPosition_def)

lemma findCellByType_SomeD:
  assumes "findCellByType g t = Some c"
  shows "isValidPosition g (fst c) (snd c)" and "\<exists>e. cells g c = Some e \<and> etype e = t"
proof -
  from assms have "c \<in> set (scanOrder g)" and h: "holdsType g t c"
    by (auto simp add: findCellByType_def find_Some_iff)
  then show "isValidPosition g (fst c) (snd c)" by (simp add: scanOrder_valid)
  from h show "\<exists>e. cells g c = Some e \<and> etype e = t"
    by (auto simp add: holdsType_def split: option.splits)
qed

lemma getEntity_SomeD:
  "getEntity g x y = Some e \<Longrightarrow> isValidPosition g x y \<and> cells g (x, y) = Some e"
  by (simp add: getEntity_def split: if_splits)

lemma direction_nonzero: "getDirectionVector dir = (dx, dy) \<Longrightarrow> dx \<noteq> 0 \<or> dy \<noteq> 0"
  by (cases dir) auto

text \<open>The scan looks at the types in the cells only, not at stored coordinates.\<close>

lemma findCellByType_cong:
  assumes "width g' = width g" "height g' = height g"
    and "\<And>c. holdsType g' t c = holdsType g t c"
  shows "findCellByType g' t = findCellByType g t"
proof -
  have "scanOrder g' = scanOrder g" using assms(1,2) by (simp add: scanOrder_def)
  moreover have "holdsType g' t = holdsType g t" using assms(3) by (simp add: fun_eq_iff)
  ultimately show ?thesis by (simp add: findCellByType_def)
qed

subsection \<open>Movement\<close>

lemma handleBoulderPush_vertical:
  "dir = UP \<or> dir = DOWN \<Longrightarrow> handleBoulderPush g player newX newY dir = (result_of False, g)"
  by (simp add: handleBoulderPush_def)

text \<open>
  The resolver of the engine. When the cell that the player's move targets holds a boulder,
  \<open>movePlayer\<close> of \<^verbatim>\<open>GameLogic\<close> returns failure for UP and DOWN and leaves the grid as it was,
  whatever the cell beyond the boulder holds; hence a move onto a boulder that succeeds is
  a move LEFT or RIGHT.
\<close>

theorem vertical_boulder_push_fails:
  assumes "findEntityByType g PLAYER = Some player"
    and "getDirectionVector dir = (dx, dy)"
    and "getEntity g (ent_x player + dx) (ent_y player + dy) = Some b"
    and "etype b = BOULDER"
  shows "(dir = UP \<or> dir = DOWN \<longrightarrow> movePlayer g dir = (result_of False, g))
       \<and> (success (fst (movePlayer g dir)) \<longrightarrow> dir = LEFT \<or> dir = RIGHT)"
proof -
  from assms(1) obtain pc where pc: "findCellByType g PLAYER = Some pc" "cells g pc = Some player"
    by (auto simp add: findEntityByType_def split: option.splits)
  have v: "movePlayer g dir = (result_of False, g)" if "dir = UP \<or> dir = DOWN"
    using that assms(2,3,4) pc
    by (auto simp add: movePlayer_def handleBoulderPush_vertical Let_def)
  have "dir = LEFT \<or> dir = RIGHT" if "success (fst (movePlayer g dir))"
  proof (rule ccontr)
    assume "\<not> (dir = LEFT \<or> dir = RIGHT)"
    then have "dir = UP \<or> dir = DOWN" by (cases dir) auto
    with v that show False by (simp add: result_of_def)
  qed
  with v show ?thesis by blast
qed

theorem vertical_boulder_push_fails_witness:
  "show_grid push_example = [None, Some (BOULDER, 0, 1, False), Some (PLAYER, 0, 2, False)]
   \<and> findEntityByType push_example PLAYER = Some (new_Player 0 2)
   \<and> getDirectionVector UP = (0, - 1)
   \<and> getEntity push_example (ent_x (new_Player 0 2) + 0) (ent_y (new_Player 0 2) + - 1)
       = Some (new_Boulder 0 1)
   \<and> etype (new_Boulder 0 1) = BOULDER
   \<and> isValidPosition push_example 0 0 \<and> getEntity push_example 0 0 = None
   \<and> movePlayer push_example UP = (result_of False, push_example)
   \<and> show_grid side_push_example = [Some (PLAYER, 0, 0, False), Some (BOULDER, 1, 0, False), None]
   \<and> findEntityByType side_push_example PLAYER = Some (new_Player 0 0)
   \<and> getDirectionVector RIGHT = (1, 0)
   \<and> getEntity side_push_example (ent_x (new_Player 0 0) + 1) (ent_y (new_Player 0 0) + 0)
       = Some (new_Boulder 1 0)
   \<and> etype (new_Boulder 1 0) = BOULDER
   \<and> success (fst (movePlayer side_push_example RIGHT))
   \<and> (RIGHT = LEFT \<or> RIGHT = RIGHT)
   \<and> show_grid (snd (movePlayer side_push_example RIGHT))
       = [None, Some (PLAYER, 1, 0, False), Some (BOULDER, 2, 0, False)]"
proof -
  have g: "show_grid push_example = [None, Some (BOULDER, 0, 1, False), Some (PLAYER, 0, 2, False)]"
    "show_grid side_push_example = [Some (PLAYER, 0, 0, False), Some (BOULDER, 1, 0, False), None]"
    by code_simp+
  have h1: "findEntityByType push_example PLAYER = Some (new_Player 0 2)" by code_simp
  have h2: "getDirectionVector UP = (0, - 1)" by simp
  have h3: "getEntity push_example (ent_x (new_Player 0 2) + 0) (ent_y (new_Player 0 2) + - 1)
       = Some (new_Boulder 0 1)" by code_simp
  have h4: "etype (new_Boulder 0 1) = BOULDER" by code_simp
  have h5: "isValidPosition push_example 0 0" "getEntity push_example 0 0 = None" by code_simp+
  have k1: "findEntityByType side_push_example PLAYER = Some (new_Player 0 0)" by code_simp
  have k2: "getDirectionVector RIGHT = (1, 0)" by simp
  have k3: "getEntity side_push_example (ent_x (new_Player 0 0) + 1) (ent_y (new_Player 0 0) + 0)
       = Some (new_Boulder 1 0)" by code_simp
  have k4: "etype (new_Boulder 1 0) = BOULDER" by code_simp
  have k5: "success (fst (movePlayer side_push_example RIGHT))"
    "show_grid (snd (movePlayer side_push_example RIGHT))
       = [None, Some (PLAYER, 1, 0, False), Some (BOULDER, 2, 0, False)]" by code_simp+
  from g h1 h2 h3 h4 h5 k1 k2 k3 k4 k5
    vertical_boulder_push_fails [OF h1 h2 h3 h4]
    vertical_boulder_push_fails [OF k1 k2 k3 k4]
  show ?thesis by blast
qed

text \<open>
  Claim C3 on the source. In the first grid the player stands below a boulder whose cell
  above is empty and moves UP, in the second it stands on top of a boulder whose cell below
  is empty and moves DOWN. \<open>movePlayer\<close> of \<^verbatim>\<open>GameLogic\<close> fails and leaves the grid as it is.
  \<open>ms_movePlayer\<close> of \<^verbatim>\<open>MovementSystem\<close>, whose \<^verbatim>\<open>handleBoulderPush\<close> does not look at the
  direction, returns success and moves boulder and player one cell up, respectively down.
\<close>

theorem movement_system_pushes_boulder_vertically:
  "show_grid push_example = [None, Some (BOULDER, 0, 1, False), Some (PLAYER, 0, 2, False)]
   \<and> \<not> success (fst (movePlayer push_example UP))
   \<and> show_grid (snd (movePlayer push_example UP))
       = [None, Some (BOULDER, 0, 1, False), Some (PLAYER, 0, 2, False)]
   \<and> ms_success (fst (ms_movePlayer push_example UP))
   \<and> show_grid (snd (ms_movePlayer push_example UP))
       = [Some (BOULDER, 0, 0, False), Some (PLAYER, 0, 1, False), None]
   \<and> show_grid push_down_example
       = [Some (PLAYER, 0, 0, False), Some (BOULDER, 0, 1, False), None]
   \<and> \<not> success (fst (movePlayer push_down_example DOWN))
   \<and> show_grid (snd (movePlayer push_down_example DOWN))
       = [Some (PLAYER, 0, 0, False), Some (BOULDER, 0, 1, False), None]
   \<and> ms_success (fst (ms_movePlayer push_down_example DOWN))
   \<and> show_grid (snd (ms_movePlayer push_down_example DOWN))
       = [None, Some (PLAYER, 0, 1, False), Some (BOULDER, 0, 2, False)]"
  by code_simp

text \<open>
  Claim C1, as the source has it. Moving the player (alive, stored in its own cell) onto a
  diamond returns success with \<open>diamondCollected = true\<close> and the diamond's points as the
  score change; the diamond is gone, the player's old cell is empty, and the diamond's cell
  holds the player, whose counter \<open>diamondsCollected\<close> has grown by exactly one.
\<close>

theorem diamond_collection_counts_one:
  assumes "findCellByType g PLAYER = Some (px, py)" and "cells g (px, py) = Some player"
    and "ent_x player = px" and "ent_y player = py" and "alive player"
    and "getDirectionVector dir = (dx, dy)"
    and "getEntity g (px + dx) (py + dy) = Some d" and "etype d = DIAMOND"
  shows "movePlayer g dir =
           ((result_of True)\<lparr>diamondCollected := Some True, scoreChange := Some (points d)\<rparr>,
            g\<lparr>cells := (cells g)((px, py) := None,
                 (px + dx, py + dy) := Some (setPosition (px + dx) (py + dy) (collectDiamond player)))\<rparr>)
         \<and> diamondsCollected (setPosition (px + dx) (py + dy) (collectDiamond player))
             = diamondsCollected player + 1"
proof -
  let ?tx = "px + dx" and ?ty = "py + dy"
  have vp: "isValidPosition g px py" using findCellByType_SomeD(1) [OF assms(1)] by simp
  have vt: "isValidPosition g ?tx ?ty" and ct: "cells g (?tx, ?ty) = Some d"
    using getEntity_SomeD [OF assms(7)] by simp_all
  have ne: "(px, py) \<noteq> (?tx, ?ty)" using direction_nonzero [OF assms(6)] by auto
  have hd: "handleDiamondCollection g (px, py) player d ?tx ?ty =
           ((result_of True)\<lparr>diamondCollected := Some True, scoreChange := Some (points d)\<rparr>,
            g\<lparr>cells := (cells g)((px, py) := None,
                 (?tx, ?ty) := Some (setPosition ?tx ?ty (collectDiamond player)))\<rparr>)"
    using vp vt ne assms(2,3,4)
    by (auto simp add: handleDiamondCollection_def executePlayerMove_def removeEntity_def
        setEntity_def updEntity_def moveEntity_def getEntity_def isValidPosition_def
        collectDiamond_def setPosition_def Let_def)
  have "movePlayer g dir = handleDiamondCollection g (px, py) player d ?tx ?ty"
    using assms vt by (simp add: movePlayer_def Let_def)
  with hd show ?thesis by (simp add: collectDiamond_def setPosition_def)
qed

theorem diamond_collection_counts_one_witness:
  "show_grid diamond_example
     = [Some (PLAYER, 0, 0, False), Some (DIAMOND, 1, 0, False), Some (EXIT, 2, 0, False)]
   \<and> findCellByType diamond_example PLAYER = Some (0, 0)
   \<and> cells diamond_example (0, 0) = Some (new_Player 0 0)
   \<and> ent_x (new_Player 0 0) = 0 \<and> ent_y (new_Player 0 0) = 0 \<and> alive (new_Player 0 0)
   \<and> getDirectionVector RIGHT = (1, 0)
   \<and> getEntity diamond_example (0 + 1) (0 + 0) = Some (new_Diamond 1 0 10)
   \<and> etype (new_Diamond 1 0 10) = DIAMOND
   \<and> movePlayer diamond_example RIGHT =
       ((result_of True)\<lparr>diamondCollected := Some True,
                          scoreChange := Some (points (new_Diamond 1 0 10))\<rparr>,
        diamond_example\<lparr>cells := (cells diamond_example)((0, 0) := None,
           (0 + 1, 0 + 0) := Some (setPosition (0 + 1) (0 + 0) (collectDiamond (new_Player 0 0))))\<rparr>)
   \<and> diamondsCollected (new_Player 0 0) = 0
   \<and> show_grid (snd (movePlayer diamond_example RIGHT))
       = [None, Some (PLAYER, 1, 0, False), Some (EXIT, 2, 0, False)]
   \<and> map_option diamondsCollected (getEntity (snd (movePlayer diamond_example RIGHT)) 1 0) = Some 1"
proof -
  have g: "show_grid diamond_example
     = [Some (PLAYER, 0, 0, False), Some (DIAMOND, 1, 0, False), Some (EXIT, 2, 0, False)]"
    by code_simp
  have h1: "findCellByType diamond_example PLAYER = Some (0, 0)" by code_simp
  have h2: "cells diamond_example (0, 0) = Some (new_Player 0 0)" by code_simp
  have h3: "ent_x (new_Player 0 0) = 0" "ent_y (new_Player 0 0) = 0" "alive (new_Player 0 0)"
    by code_simp+
  have h4: "getDirectionVector RIGHT = (1, 0)" by simp
  have h5: "getEntity diamond_example (0 + 1) (0 + 0) = Some (new_Diamond 1 0 10)" by code_simp
  have h6: "etype (new_Diamond 1 0 10) = DIAMOND" by code_simp
  have c: "diamondsCollected (new_Player 0 0) = 0"
    "show_grid (snd (movePlayer diamond_example RIGHT))
       = [None, Some (PLAYER, 1, 0, False), Some (EXIT, 2, 0, False)]"
    "map_option diamondsCollected (getEntity (snd (movePlayer diamond_example RIGHT)) 1 0) = Some 1"
    by code_simp+
  from g h1 h2 h3 h4 h5 h6 c diamond_collection_counts_one [OF h1 h2 h3 h4 h5 h6]
  show ?thesis by blast
qed

text \<open>
  Claim C1 as stated fails: the player (no diamonds yet) next to a diamond worth 10 points
  collects it and holds one diamond, not ten.
\<close>

theorem diamond_points_not_added_to_counter:
  "map_option points (getEntity diamond_example 1 0) = Some 10
   \<and> map_option diamondsCollected (findEntityByType diamond_example PLAYER) = Some 0
   \<and> success (fst (movePlayer diamond_example RIGHT))
   \<and> map_option diamondsCollected (findEntityByType (snd (movePlayer diamond_example RIGHT)) PLAYER)
       = Some 1
   \<and> map_option diamondsCollected (findEntityByType (snd (movePlayer diamond_example RIGHT)) PLAYER)
       \<noteq> Some (0 + 10)"
  by code_simp

text \<open>
  Claim C10. A successful move of the player (stored in its own cell) onto the open exit
  of the level (the exit that \<open>findEntityByType\<close> finds, stored in its own cell)
  changes nothing in the grid but the stored position of the player (\<open>setPosition\<close>, which
  also keeps the previous position for the animation): the player stays in its old cell,
  its stored coordinates are the exit's cell and so differ from the cell that holds it, the
  exit's cell still holds the exit, and \<open>checkLevelComplete\<close>, which compares stored
  coordinates, holds.
\<close>

theorem exit_move_keeps_player_in_old_cell:
  assumes "findCellByType g PLAYER = Some (px, py)" and "cells g (px, py) = Some player"
    and "ent_x player = px" and "ent_y player = py"
    and "getDirectionVector dir = (dx, dy)"
    and "findCellByType g EXIT = Some (px + dx, py + dy)"
    and "cells g (px + dx, py + dy) = Some exit"
    and "ent_x exit = px + dx" and "ent_y exit = py + dy" and "isOpen exit"
    and "success (fst (movePlayer g dir))"
  shows "snd (movePlayer g dir) =
           g\<lparr>cells := (cells g)((px, py) := Some (setPosition (px + dx) (py + dy) player))\<rparr>
       \<and> getEntity (snd (movePlayer g dir)) px py = Some (setPosition (px + dx) (py + dy) player)
       \<and> etype (setPosition (px + dx) (py + dy) player) = PLAYER
       \<and> (ent_x (setPosition (px + dx) (py + dy) player),
           ent_y (setPosition (px + dx) (py + dy) player)) = (px + dx, py + dy)
       \<and> (px + dx, py + dy) \<noteq> (px, py)
       \<and> getEntity (snd (movePlayer g dir)) (px + dx) (py + dy) = Some exit
       \<and> checkLevelComplete (snd (movePlayer g dir))"
proof -
  let ?tx = "px + dx" and ?ty = "py + dy"
  let ?g' = "g\<lparr>cells := (cells g)((px, py) := Some (setPosition ?tx ?ty player))\<rparr>"
  have vp: "isValidPosition g px py" using findCellByType_SomeD(1) [OF assms(1)] by simp
  have vt: "isValidPosition g ?tx ?ty" using findCellByType_SomeD(1) [OF assms(6)] by simp
  have tp: "etype player = PLAYER" using findCellByType_SomeD(2) [OF assms(1)] assms(2) by simp
  have te: "etype exit = EXIT" using findCellByType_SomeD(2) [OF assms(6)] assms(7) by simp
  have ne: "(px, py) \<noteq> (?tx, ?ty)" using direction_nonzero [OF assms(5)] by auto
  have mp: "movePlayer g dir =
      (if \<not> alive player then (result_of False, g)
       else handleExitMovement g (px, py) player exit ?tx ?ty)"
    using assms(1-5,7) vt te by (simp add: movePlayer_def Let_def getEntity_def)
  with assms(11) have al: "alive player" by (auto simp add: result_of_def split: if_splits)
  with mp assms(11) have ok: "\<not> diamondsCollected player < diamondsRequired exit" "\<not> solid exit"
    by (auto simp add: handleExitMovement_def result_of_def split: if_splits)
  have g': "snd (movePlayer g dir) = ?g'"
    using mp al ok assms(2) by (simp add: handleExitMovement_def updEntity_def)
  have fp: "findCellByType ?g' PLAYER = Some (px, py)"
  proof -
    have "findCellByType ?g' PLAYER = findCellByType g PLAYER"
      by (rule findCellByType_cong)
        (use assms(2) tp in \<open>auto simp add: holdsType_def split: option.splits\<close>)
    then show ?thesis using assms(1) by simp
  qed
  have fe: "findCellByType ?g' EXIT = Some (?tx, ?ty)"
  proof -
    have "findCellByType ?g' EXIT = findCellByType g EXIT"
      by (rule findCellByType_cong)
        (use assms(2) tp in \<open>auto simp add: holdsType_def split: option.splits\<close>)
    then show ?thesis using assms(6) by simp
  qed
  have clc: "checkLevelComplete ?g'"
    using fp fe ne assms(7-10) ok
    by (auto simp add: checkLevelComplete_def findEntityByType_def Let_def)
  show ?thesis
    using g' clc vp vt ne tp assms(7) by (auto simp add: getEntity_def isValidPosition_def)
qed

theorem exit_move_keeps_player_in_old_cell_witness:
  "show_grid exit_example = [Some (PLAYER, 0, 0, False), Some (EXIT, 1, 0, False)]
   \<and> findCellByType exit_example PLAYER = Some (0, 0)
   \<and> cells exit_example (0, 0) = Some (new_Player 0 0)
   \<and> ent_x (new_Player 0 0) = 0 \<and> ent_y (new_Player 0 0) = 0
   \<and> getDirectionVector RIGHT = (1, 0)
   \<and> findCellByType exit_example EXIT = Some (0 + 1, 0 + 0)
   \<and> cells exit_example (0 + 1, 0 + 0) = Some (new_Exit 1 0 0)
   \<and> ent_x (new_Exit 1 0 0) = 0 + 1 \<and> ent_y (new_Exit 1 0 0) = 0 + 0 \<and> isOpen (new_Exit 1 0 0)
   \<and> success (fst (movePlayer exit_example RIGHT))
   \<and> snd (movePlayer exit_example RIGHT) =
       exit_example\<lparr>cells := (cells exit_example)
          ((0, 0) := Some (setPosition (0 + 1) (0 + 0) (new_Player 0 0)))\<rparr>
   \<and> show_grid (snd (movePlayer exit_example RIGHT))
       = [Some (PLAYER, 1, 0, False), Some (EXIT, 1, 0, False)]
   \<and> checkLevelComplete (snd (movePlayer exit_example RIGHT))"
proof -
  have g: "show_grid exit_example = [Some (PLAYER, 0, 0, False), Some (EXIT, 1, 0, False)]"
    by code_simp
  have h1: "findCellByType exit_example PLAYER = Some (0, 0)" by code_simp
  have h2: "cells exit_example (0, 0) = Some (new_Player 0 0)" by code_simp
  have h3: "ent_x (new_Player 0 0) = 0" "ent_y (new_Player 0 0) = 0" by code_simp+
  have h4: "getDirectionVector RIGHT = (1, 0)" by simp
  have h5: "findCellByType exit_example EXIT = Some (0 + 1, 0 + 0)" by code_simp
  have h6: "cells exit_example (0 + 1, 0 + 0) = Some (new_Exit 1 0 0)" by code_simp
  have h7: "ent_x (new_Exit 1 0 0) = 0 + 1" "ent_y (new_Exit 1 0 0) = 0 + 0"
    "isOpen (new_Exit 1 0 0)" by code_simp+
  have h8: "success (fst (movePlayer exit_example RIGHT))" by code_simp
  have c: "show_grid (snd (movePlayer exit_example RIGHT))
       = [Some (PLAYER, 1, 0, False), Some (EXIT, 1, 0, False)]" by code_simp
  from g h1 h2 h3 h4 h5 h6 h7 h8 c
    exit_move_keeps_player_in_old_cell [OF h1 h2 h3 h4 h5 h6 h7 h8]
  show ?thesis by blast
qed

lemma createEntityFromChar_exit:
  "createEntityFromChar req ch x y = Some e \<Longrightarrow> etype e = EXIT \<Longrightarrow> diamondsRequired e = req"
  by (auto simp add: createEntityFromChar_def new_Player_def new_Wall_def new_Dirt_def
      new_Diamond_def new_Boulder_def new_Exit_def new_Entity_def split: if_splits)

lemma new_Level_exit_quota:
  assumes "cells (grid (new_Level ld)) c = Some e" and "etype e = EXIT"
  shows "diamondsRequired e = lv_diamondsRequired (new_Level ld)"
proof -
  let ?req = "ld_diamondsRequired ld"
  define Q where "Q g \<longleftrightarrow>
     (\<forall>c e. cells g c = Some e \<longrightarrow> etype e = EXIT \<longrightarrow> diamondsRequired e = ?req)"
    for g :: game_grid
  have set: "Q (snd (setEntity g x y (Some v)))"
    if "Q g" "etype v = EXIT \<longrightarrow> diamondsRequired v = ?req" for g x y v
    using that by (auto simp add: Q_def setEntity_def)
  have row: "Q (loadRow ?req y r g)" if "Q g" for y r g
    unfolding loadRow_def using that
    by (rule fold_invariant [where I = Q, rotated])
       (auto split: option.splits intro!: set dest: createEntityFromChar_exit)
  have rows: "Q (loadLayout ?req rs g)" if "Q g" for rs g
    unfolding loadLayout_def using that
    by (rule fold_invariant [where I = Q, rotated]) (auto intro: row)
  have "Q (new_GameGrid w h)" for w h by (simp add: Q_def new_GameGrid_def)
  then have "Q (grid (new_Level ld))"
    unfolding new_Level_def Let_def by (simp add: rows)
  with assms have "diamondsRequired e = ?req" unfolding Q_def by blast
  then show ?thesis by (simp add: new_Level_def Let_def)
qed

text \<open>
  The check at the end of a turn. \<open>checkLevelComplete\<close> holds exactly when the grid has a
  player and an exit, the player's stored position is the exit's, the player's diamond count
  is at least the number the exit requires, and the exit is open. The engine evaluates it
  in \<open>checkGameConditions\<close>, the last step of a turn, and stops playing when it holds. The
  number an exit requires is the quota of its level: every exit of a level built from level
  data carries the level's \<open>diamondsRequired\<close>.
\<close>

theorem level_complete_iff_three_conditions:
  "(checkLevelComplete g \<longleftrightarrow>
     (\<exists>player exit. findEntityByType g PLAYER = Some player \<and> findEntityByType g EXIT = Some exit
        \<and> (ent_x player, ent_y player) = (ent_x exit, ent_y exit)
        \<and> diamondsCollected player \<ge> diamondsRequired exit
        \<and> isOpen exit))
   \<and> (isPlaying (checkGameConditions s) \<longleftrightarrow>
        isPlaying s \<and> \<not> checkLevelComplete (grid (level s)) \<and> 0 < lives s)
   \<and> (cells (grid (new_Level ld)) c = Some e \<and> etype e = EXIT \<longrightarrow>
        diamondsRequired e = lv_diamondsRequired (new_Level ld))"
proof -
  have 1: "checkLevelComplete g \<longleftrightarrow>
     (\<exists>player exit. findEntityByType g PLAYER = Some player \<and> findEntityByType g EXIT = Some exit
        \<and> (ent_x player, ent_y player) = (ent_x exit, ent_y exit)
        \<and> diamondsCollected player \<ge> diamondsRequired exit
        \<and> isOpen exit)"
    by (auto simp add: checkLevelComplete_def Let_def split: option.splits)
  have 2: "isPlaying (checkGameConditions s) \<longleftrightarrow>
        isPlaying s \<and> \<not> checkLevelComplete (grid (level s)) \<and> 0 < lives s"
    by (auto simp add: checkGameConditions_def emitEvent_def Let_def)
  from 1 2 new_Level_exit_quota [of ld c e] show ?thesis by blast
qed

theorem level_complete_iff_three_conditions_witness:
  "checkLevelComplete (snd (movePlayer exit_example RIGHT))
   \<and> (\<exists>player exit.
         findEntityByType (snd (movePlayer exit_example RIGHT)) PLAYER = Some player
       \<and> findEntityByType (snd (movePlayer exit_example RIGHT)) EXIT = Some exit
       \<and> (ent_x player, ent_y player) = (ent_x exit, ent_y exit)
       \<and> diamondsCollected player \<ge> diamondsRequired exit \<and> isOpen exit)
   \<and> \<not> checkLevelComplete diamond_example
   \<and> cells (grid (new_Level exit_level)) (1, 0) = Some (new_Exit 1 0 3)
   \<and> etype (new_Exit 1 0 3) = EXIT
   \<and> diamondsRequired (new_Exit 1 0 3) = lv_diamondsRequired (new_Level exit_level)"
proof -
  have a: "checkLevelComplete (snd (movePlayer exit_example RIGHT))" by code_simp
  have b: "\<not> checkLevelComplete diamond_example" by code_simp
  have c: "cells (grid (new_Level exit_level)) (1, 0) = Some (new_Exit 1 0 3)" by code_simp
  have d: "etype (new_Exit 1 0 3) = EXIT" by code_simp
  from a b c d
    level_complete_iff_three_conditions [of "snd (movePlayer exit_example RIGHT)"
      _ exit_level "(1, 0)" "new_Exit 1 0 3"]
  show ?thesis by blast
qed


subsection \<open>Gravity and rolling steps\<close>

text \<open>
  Claim C5. When the gravity pass reaches a boulder or diamond \<open>e\<close> whose cell below holds
  the player, the step reports a kill exactly when \<open>e\<close> is falling; the player's \<open>alive\<close>
  flag stays as it was when \<open>e\<close> rests and becomes false when \<open>e\<close> falls; nothing moves
  (\<open>e\<close> stays in its cell with its falling flag cleared, the player stays below).
\<close>

theorem falling_impact_kills_iff_falling:
  assumes "getEntity g x y = Some e" and "etype e = BOULDER \<or> etype e = DIAMOND"
    and "getEntity g x (y + 1) = Some p" and "etype p = PLAYER"
  shows "tryMoveBoulderDown g e x y =
           (\<lparr>moved = False, playerKilled = falling e\<rparr>,
            if falling e then updEntity g x (y + 1) (\<lambda>p. p\<lparr>alive := False\<rparr>)
            else updEntity g x y stopFalling)
       \<and> tryMoveDiamondDown g e x y = tryMoveBoulderDown g e x y
       \<and> fallCell x y (r, g) =
           (r\<lparr>playerDied := playerDied r \<or> falling e\<rparr>,
            g\<lparr>cells := (cells g)((x, y) := Some (stopFalling e),
                 (x, y + 1) := Some (p\<lparr>alive := alive p \<and> \<not> falling e\<rparr>))\<rparr>)"
proof -
  have v: "isValidPosition g x y" "cells g (x, y) = Some e"
    using getEntity_SomeD [OF assms(1)] by simp_all
  have vb: "isValidPosition g x (y + 1)" "cells g (x, y + 1) = Some p"
    using getEntity_SomeD [OF assms(3)] by simp_all
  have b: "tryMoveBoulderDown g e x y =
           (\<lparr>moved = False, playerKilled = falling e\<rparr>,
            if falling e then updEntity g x (y + 1) (\<lambda>p. p\<lparr>alive := False\<rparr>)
            else updEntity g x y stopFalling)"
    using assms v vb
    by (auto simp add: tryMoveBoulderDown_def Let_def)
  have d: "tryMoveDiamondDown g e x y = tryMoveBoulderDown g e x y"
    by (simp add: tryMoveDiamondDown_def tryMoveBoulderDown_def)
  have c: "fallCell x y (r, g) =
           (r\<lparr>playerDied := playerDied r \<or> falling e\<rparr>,
            g\<lparr>cells := (cells g)((x, y) := Some (stopFalling e),
                 (x, y + 1) := Some (p\<lparr>alive := alive p \<and> \<not> falling e\<rparr>))\<rparr>)"
  proof (cases "falling e")
    case True
    then show ?thesis
      using assms v vb b d
      by (auto simp add: fallCell_def Let_def updEntity_def getEntity_def stopFalling_def
          isValidPosition_def fun_upd_twist)
  next
    case False
    have same: "updEntity g x y stopFalling = g"
      using False v by (simp add: updEntity_def stopFalling_def fun_upd_idem)
    have rhs: "g\<lparr>cells := (cells g)((x, y) := Some (stopFalling e),
                 (x, y + 1) := Some (p\<lparr>alive := alive p \<and> \<not> falling e\<rparr>))\<rparr> = g"
      using False v vb by (simp add: stopFalling_def fun_upd_idem)
    have "fallCell x y (r, g) = (r, g)"
      using False assms b d same by (auto simp add: fallCell_def Let_def getEntity_SomeD)
    with False rhs show ?thesis by simp
  qed
  from b d c show ?thesis by simp
qed

theorem falling_impact_kills_iff_falling_witness:
  "show_grid crush_example = [None, Some (BOULDER, 0, 1, True), Some (PLAYER, 0, 2, False)]
   \<and> getEntity crush_example 0 1 = Some fallen_boulder
   \<and> (etype fallen_boulder = BOULDER \<or> etype fallen_boulder = DIAMOND)
   \<and> getEntity crush_example 0 (1 + 1) = Some (new_Player 0 2)
   \<and> etype (new_Player 0 2) = PLAYER
   \<and> falling fallen_boulder \<and> alive (new_Player 0 2)
   \<and> fallCell 0 1 (no_result, crush_example) =
       (no_result\<lparr>playerDied := playerDied no_result \<or> falling fallen_boulder\<rparr>,
        crush_example\<lparr>cells := (cells crush_example)((0, 1) := Some (stopFalling fallen_boulder),
           (0, 1 + 1) := Some ((new_Player 0 2)
              \<lparr>alive := alive (new_Player 0 2) \<and> \<not> falling fallen_boulder\<rparr>))\<rparr>)
   \<and> playerDied (fst (fallCell 0 1 (no_result, crush_example)))
   \<and> map_option alive (getEntity (snd (fallCell 0 1 (no_result, crush_example))) 0 2) = Some False
   \<and> show_grid (snd (fallCell 0 1 (no_result, crush_example)))
       = [None, Some (BOULDER, 0, 1, False), Some (PLAYER, 0, 2, False)]
   \<and> show_grid rest_example = [Some (DIAMOND, 0, 0, False), Some (PLAYER, 0, 1, False)]
   \<and> getEntity rest_example 0 0 = Some (new_Diamond 0 0 10)
   \<and> (etype (new_Diamond 0 0 10) = BOULDER \<or> etype (new_Diamond 0 0 10) = DIAMOND)
   \<and> getEntity rest_example 0 (0 + 1) = Some (new_Player 0 1)
   \<and> etype (new_Player 0 1) = PLAYER
   \<and> \<not> falling (new_Diamond 0 0 10)
   \<and> tryMoveDiamondDown rest_example (new_Diamond 0 0 10) 0 0 =
       tryMoveBoulderDown rest_example (new_Diamond 0 0 10) 0 0
   \<and> \<not> playerKilled (fst (tryMoveDiamondDown rest_example (new_Diamond 0 0 10) 0 0))
   \<and> \<not> playerDied (fst (fallCell 0 0 (no_result, rest_example)))
   \<and> map_option alive (getEntity (snd (fallCell 0 0 (no_result, rest_example))) 0 1) = Some True"
proof -
  have g: "show_grid crush_example = [None, Some (BOULDER, 0, 1, True), Some (PLAYER, 0, 2, False)]"
    "show_grid rest_example = [Some (DIAMOND, 0, 0, False), Some (PLAYER, 0, 1, False)]"
    by code_simp+
  have h1: "getEntity crush_example 0 1 = Some fallen_boulder" by code_simp
  have h2: "etype fallen_boulder = BOULDER \<or> etype fallen_boulder = DIAMOND" by code_simp
  have h3: "getEntity crush_example 0 (1 + 1) = Some (new_Player 0 2)" by code_simp
  have h4: "etype (new_Player 0 2) = PLAYER" by code_simp
  have f: "falling fallen_boulder" "alive (new_Player 0 2)" by code_simp+
  have c1: "playerDied (fst (fallCell 0 1 (no_result, crush_example)))"
    "map_option alive (getEntity (snd (fallCell 0 1 (no_result, crush_example))) 0 2) = Some False"
    "show_grid (snd (fallCell 0 1 (no_result, crush_example)))
       = [None, Some (BOULDER, 0, 1, False), Some (PLAYER, 0, 2, False)]"
    by code_simp+
  have k1: "getEntity rest_example 0 0 = Some (new_Diamond 0 0 10)" by code_simp
  have k2: "etype (new_Diamond 0 0 10) = BOULDER \<or> etype (new_Diamond 0 0 10) = DIAMOND"
    by code_simp
  have k3: "getEntity rest_example 0 (0 + 1) = Some (new_Player 0 1)" by code_simp
  have k4: "etype (new_Player 0 1) = PLAYER" by code_simp
  have nf: "\<not> falling (new_Diamond 0 0 10)" by code_simp
  have c2: "\<not> playerKilled (fst (tryMoveDiamondDown rest_example (new_Diamond 0 0 10) 0 0))"
    "\<not> playerDied (fst (fallCell 0 0 (no_result, rest_example)))"
    "map_option alive (getEntity (snd (fallCell 0 0 (no_result, rest_example))) 0 1) = Some True"
    by code_simp+
  from g h1 h2 h3 h4 f c1 k1 k2 k3 k4 nf c2
    falling_impact_kills_iff_falling [OF h1 h2 h3 h4, of no_result]
    falling_impact_kills_iff_falling [OF k1 k2 k3 k4, of no_result]
  show ?thesis by blast
qed

lemma tryRollDirection_eq:
  assumes "getEntity g x y = Some e" and "etype e = BOULDER \<or> etype e = DIAMOND"
  shows "tryRollDirection g e x y d =
     (if isValidPosition g (x + d) y \<and> isValidPosition g (x + d) (y + 1)
         \<and> getEntity g (x + d) y = None \<and> getEntity g (x + d) (y + 1) = None
      then (\<lparr>moved = True, playerKilled = False\<rparr>,
            g\<lparr>cells := (cells g)((x, y) := None,
                 (x + d, y + 1) := Some (startFalling (setPosition (x + d) (y + 1) e)))\<rparr>)
      else (\<lparr>moved = False, playerKilled = False\<rparr>, g))"
proof (cases "isValidPosition g (x + d) y \<and> isValidPosition g (x + d) (y + 1)
         \<and> getEntity g (x + d) y = None \<and> getEntity g (x + d) (y + 1) = None")
  case True
  have v: "isValidPosition g x y" using getEntity_SomeD [OF assms(1)] by simp
  have ns: "\<not> isSolid g (x + d) (y + 1)" using True by (simp add: isSolid_def)
  have "moveEntity g x y (x + d) (y + 1) =
          (True, g\<lparr>cells := ((cells g)((x, y) := None))((x + d, y + 1) := Some (setPosition (x + d) (y + 1) e))\<rparr>)"
    using moveEntity_moves [OF v _ assms(1) ns] True by simp
  with True assms(2) show ?thesis
    by (auto simp add: tryRollDirection_def Let_def updEntity_def)
next
  case False
  then show ?thesis
    by (auto simp add: tryRollDirection_def Let_def split: option.splits)
qed

text \<open>
  Rolling in the engine. For a boulder or diamond \<open>e\<close> in cell \<open>(x, y)\<close> and a direction \<open>d\<close>,
  \<open>tryRollDirection\<close> moves exactly when the side cell \<open>(x + d, y)\<close> and the diagonal cell \<open>(x + d, y + 1)\<close>
  are in bounds and empty; it then moves \<open>e\<close> in one step to the diagonal cell and sets its
  falling flag, and otherwise leaves the grid as it was. On a boulder or diamond that is
  not falling, \<open>tryRolling\<close> rolls to the right (\<open>d = 1\<close>) whenever the right qualifies, so
  also when both sides do, and tries the left (\<open>d = -1\<close>) only when the right fails.
\<close>

theorem rolling_tries_right_first:
  assumes "getEntity g x y = Some e" and "etype e = BOULDER \<or> etype e = DIAMOND"
  shows "(moved (fst (tryRollDirection g e x y d)) \<longleftrightarrow>
            isValidPosition g (x + d) y \<and> isValidPosition g (x + d) (y + 1)
            \<and> getEntity g (x + d) y = None \<and> getEntity g (x + d) (y + 1) = None)
       \<and> (moved (fst (tryRollDirection g e x y d)) \<longrightarrow>
            snd (tryRollDirection g e x y d) =
              g\<lparr>cells := (cells g)((x, y) := None,
                   (x + d, y + 1) := Some (startFalling (setPosition (x + d) (y + 1) e)))\<rparr>
            \<and> falling (startFalling (setPosition (x + d) (y + 1) e)))
       \<and> (\<not> moved (fst (tryRollDirection g e x y d)) \<longrightarrow> snd (tryRollDirection g e x y d) = g)
       \<and> (getEntity g x (y + 1) = Some b \<and> (etype b = BOULDER \<or> etype b = DIAMOND) \<and> \<not> falling b \<longrightarrow>
            tryRolling g e x y =
              (if moved (fst (tryRollDirection g e x y 1)) then tryRollDirection g e x y 1
               else tryRollDirection g e x y (- 1)))"
proof -
  note rd = tryRollDirection_eq [OF assms]
  have 1: "moved (fst (tryRollDirection g e x y d)) \<longleftrightarrow>
            isValidPosition g (x + d) y \<and> isValidPosition g (x + d) (y + 1)
            \<and> getEntity g (x + d) y = None \<and> getEntity g (x + d) (y + 1) = None"
    by (simp add: rd)
  have 2: "moved (fst (tryRollDirection g e x y d)) \<longrightarrow>
            snd (tryRollDirection g e x y d) =
              g\<lparr>cells := (cells g)((x, y) := None,
                   (x + d, y + 1) := Some (startFalling (setPosition (x + d) (y + 1) e)))\<rparr>
            \<and> falling (startFalling (setPosition (x + d) (y + 1) e))"
    by (simp add: rd startFalling_def)
  have 3: "\<not> moved (fst (tryRollDirection g e x y d)) \<longrightarrow> snd (tryRollDirection g e x y d) = g"
    by (simp add: rd)
  have 4: "getEntity g x (y + 1) = Some b \<and> (etype b = BOULDER \<or> etype b = DIAMOND) \<and> \<not> falling b \<longrightarrow>
            tryRolling g e x y =
              (if moved (fst (tryRollDirection g e x y 1)) then tryRollDirection g e x y 1
               else tryRollDirection g e x y (- 1))"
  proof
    assume h: "getEntity g x (y + 1) = Some b \<and> (etype b = BOULDER \<or> etype b = DIAMOND) \<and> \<not> falling b"
    then have vb: "isValidPosition g x (y + 1)" using getEntity_SomeD by blast
    have nm: "snd (tryRollDirection g e x y 1) = g" if "\<not> moved (fst (tryRollDirection g e x y 1))"
    proof -
      let ?F = "isValidPosition g (x + 1) y \<and> isValidPosition g (x + 1) (y + 1)
         \<and> getEntity g (x + 1) y = None \<and> getEntity g (x + 1) (y + 1) = None"
      have "\<not> ?F" using that rd [of 1] by (cases ?F) simp_all
      then have "tryRollDirection g e x y 1 = (\<lparr>moved = False, playerKilled = False\<rparr>, g)"
        by (subst rd) (simp only: if_False)
      then show ?thesis by simp
    qed
    show "tryRolling g e x y =
              (if moved (fst (tryRollDirection g e x y 1)) then tryRollDirection g e x y 1
               else tryRollDirection g e x y (- 1))"
      using h vb nm by (auto simp add: tryRolling_def Let_def split: prod.splits)
  qed
  from 1 2 3 4 show ?thesis by blast
qed

theorem rolling_tries_right_first_witness:
  "show_grid roll_example
     = [None, Some (BOULDER, 1, 0, False), None, None, Some (BOULDER, 1, 1, False), None]
   \<and> getEntity roll_example 1 0 = Some (new_Boulder 1 0)
   \<and> (etype (new_Boulder 1 0) = BOULDER \<or> etype (new_Boulder 1 0) = DIAMOND)
   \<and> getEntity roll_example 1 (0 + 1) = Some (new_Boulder 1 1)
   \<and> (etype (new_Boulder 1 1) = BOULDER \<or> etype (new_Boulder 1 1) = DIAMOND)
   \<and> \<not> falling (new_Boulder 1 1)
   \<and> moved (fst (tryRollDirection roll_example (new_Boulder 1 0) 1 0 1))
   \<and> moved (fst (tryRollDirection roll_example (new_Boulder 1 0) 1 0 (- 1)))
   \<and> tryRolling roll_example (new_Boulder 1 0) 1 0
       = tryRollDirection roll_example (new_Boulder 1 0) 1 0 1
   \<and> snd (tryRollDirection roll_example (new_Boulder 1 0) 1 0 1) =
       roll_example\<lparr>cells := (cells roll_example)((1, 0) := None,
          (1 + 1, 0 + 1) := Some (startFalling (setPosition (1 + 1) (0 + 1) (new_Boulder 1 0))))\<rparr>
   \<and> show_grid (snd (tryRolling roll_example (new_Boulder 1 0) 1 0))
       = [None, None, None, None, Some (BOULDER, 1, 1, False), Some (BOULDER, 2, 1, True)]
   \<and> show_grid roll_left_example
     = [None, Some (DIAMOND, 1, 0, False), Some (WALL, 2, 0, False),
        None, Some (BOULDER, 1, 1, False), None]
   \<and> getEntity roll_left_example 1 0 = Some (new_Diamond 1 0 10)
   \<and> (etype (new_Diamond 1 0 10) = BOULDER \<or> etype (new_Diamond 1 0 10) = DIAMOND)
   \<and> getEntity roll_left_example 1 (0 + 1) = Some (new_Boulder 1 1)
   \<and> \<not> moved (fst (tryRollDirection roll_left_example (new_Diamond 1 0 10) 1 0 1))
   \<and> snd (tryRollDirection roll_left_example (new_Diamond 1 0 10) 1 0 1) = roll_left_example
   \<and> tryRolling roll_left_example (new_Diamond 1 0 10) 1 0
       = tryRollDirection roll_left_example (new_Diamond 1 0 10) 1 0 (- 1)
   \<and> show_grid (snd (tryRolling roll_left_example (new_Diamond 1 0 10) 1 0))
       = [None, None, Some (WALL, 2, 0, False),
          Some (DIAMOND, 0, 1, True), Some (BOULDER, 1, 1, False), None]"
proof -
  have g: "show_grid roll_example
     = [None, Some (BOULDER, 1, 0, False), None, None, Some (BOULDER, 1, 1, False), None]"
    "show_grid roll_left_example
     = [None, Some (DIAMOND, 1, 0, False), Some (WALL, 2, 0, False),
        None, Some (BOULDER, 1, 1, False), None]"
    by code_simp+
  have h1: "getEntity roll_example 1 0 = Some (new_Boulder 1 0)" by code_simp
  have h2: "etype (new_Boulder 1 0) = BOULDER \<or> etype (new_Boulder 1 0) = DIAMOND" by code_simp
  have h3: "getEntity roll_example 1 (0 + 1) = Some (new_Boulder 1 1)" by code_simp
  have h4: "etype (new_Boulder 1 1) = BOULDER \<or> etype (new_Boulder 1 1) = DIAMOND" by code_simp
  have h5: "\<not> falling (new_Boulder 1 1)" by code_simp
  have r: "moved (fst (tryRollDirection roll_example (new_Boulder 1 0) 1 0 1))" by code_simp
  have l: "moved (fst (tryRollDirection roll_example (new_Boulder 1 0) 1 0 (- 1)))" by code_simp
  have c: "show_grid (snd (tryRolling roll_example (new_Boulder 1 0) 1 0))
       = [None, None, None, None, Some (BOULDER, 1, 1, False), Some (BOULDER, 2, 1, True)]"
    "show_grid (snd (tryRolling roll_left_example (new_Diamond 1 0 10) 1 0))
       = [None, None, Some (WALL, 2, 0, False),
          Some (DIAMOND, 0, 1, True), Some (BOULDER, 1, 1, False), None]"
    by code_simp+
  have k1: "getEntity roll_left_example 1 0 = Some (new_Diamond 1 0 10)" by code_simp
  have k2: "etype (new_Diamond 1 0 10) = BOULDER \<or> etype (new_Diamond 1 0 10) = DIAMOND"
    by code_simp
  have k3: "getEntity roll_left_example 1 (0 + 1) = Some (new_Boulder 1 1)" by code_simp
  have nr: "\<not> moved (fst (tryRollDirection roll_left_example (new_Diamond 1 0 10) 1 0 1))"
    by code_simp
  note th = rolling_tries_right_first [OF h1 h2, of 1 "new_Boulder 1 1"]
  from th h3 h4 h5 have "tryRolling roll_example (new_Boulder 1 0) 1 0 =
      (if moved (fst (tryRollDirection roll_example (new_Boulder 1 0) 1 0 1))
       then tryRollDirection roll_example (new_Boulder 1 0) 1 0 1
       else tryRollDirection roll_example (new_Boulder 1 0) 1 0 (- 1))"
    by blast
  with r have t: "tryRolling roll_example (new_Boulder 1 0) 1 0
       = tryRollDirection roll_example (new_Boulder 1 0) 1 0 1"
    by (simp only: if_True)
  from th r have s: "snd (tryRollDirection roll_example (new_Boulder 1 0) 1 0 1) =
       roll_example\<lparr>cells := (cells roll_example)((1, 0) := None,
          (1 + 1, 0 + 1) := Some (startFalling (setPosition (1 + 1) (0 + 1) (new_Boulder 1 0))))\<rparr>"
    by blast
  note tk = rolling_tries_right_first [OF k1 k2, of 1 "new_Boulder 1 1"]
  from tk k3 h4 h5 have "tryRolling roll_left_example (new_Diamond 1 0 10) 1 0 =
      (if moved (fst (tryRollDirection roll_left_example (new_Diamond 1 0 10) 1 0 1))
       then tryRollDirection roll_left_example (new_Diamond 1 0 10) 1 0 1
       else tryRollDirection roll_left_example (new_Diamond 1 0 10) 1 0 (- 1))"
    by blast
  with nr have tl: "tryRolling roll_left_example (new_Diamond 1 0 10) 1 0
       = tryRollDirection roll_left_example (new_Diamond 1 0 10) 1 0 (- 1)"
    by (simp only: if_False)
  from tk nr have sl: "snd (tryRollDirection roll_left_example (new_Diamond 1 0 10) 1 0 1)
      = roll_left_example"
    by blast
  from g h1 h2 h3 h4 h5 r l c k1 k2 k3 nr t s tl sl show ?thesis by blast
qed


subsection \<open>The two passes\<close>

lemma setEntity_dims [simp]:
  "width (snd (setEntity g x y eo)) = width g" "height (snd (setEntity g x y eo)) = height g"
  by (simp_all add: setEntity_def)

lemma moveEntity_dims [simp]:
  "width (snd (moveEntity g fx fy tx ty)) = width g"
  "height (snd (moveEntity g fx fy tx ty)) = height g"
  by (simp_all add: moveEntity_def Let_def split: option.splits)

lemma moveEntity_frame:
  "c \<noteq> (fx, fy) \<Longrightarrow> c \<noteq> (tx, ty) \<Longrightarrow> cells (snd (moveEntity g fx fy tx ty)) c = cells g c"
  by (simp add: moveEntity_def setEntity_def updEntity_def Let_def split: option.splits)

lemma isValidPosition_dims:
  "width g' = width g \<Longrightarrow> height g' = height g \<Longrightarrow> isValidPosition g' x y = isValidPosition g x y"
  by (simp add: isValidPosition_def)

lemma tryMoveBoulderDown_dims [simp]:
  "width (snd (tryMoveBoulderDown g e x y)) = width g"
  "height (snd (tryMoveBoulderDown g e x y)) = height g"
  by (simp_all add: tryMoveBoulderDown_def Let_def split: option.splits prod.splits)
     (metis moveEntity_dims updEntity_dims snd_conv)+

lemma tryMoveBoulderDown_frame:
  "c \<noteq> (x, y) \<Longrightarrow> c \<noteq> (x, y + 1) \<Longrightarrow> cells (snd (tryMoveBoulderDown g e x y)) c = cells g c"
  using moveEntity_frame [of c x y x "y + 1" "updEntity g x y startFalling"]
  by (auto simp add: tryMoveBoulderDown_def Let_def cells_updEntity split: option.splits prod.splits)

lemma tryMoveDiamondDown_eq: "tryMoveDiamondDown g e x y = tryMoveBoulderDown g e x y"
  by (simp add: tryMoveDiamondDown_def tryMoveBoulderDown_def)

lemma fallCell_dims [simp]:
  "width (snd (fallCell a b s)) = width (snd s)"
  "height (snd (fallCell a b s)) = height (snd s)"
  by (auto simp add: fallCell_def Let_def tryMoveDiamondDown_eq split: option.splits prod.splits)
     (metis tryMoveBoulderDown_dims snd_conv)+

lemma fallCell_frame:
  assumes "c \<noteq> (a, b)" and "c \<noteq> (a, b + 1)"
  shows "cells (snd (fallCell a b s)) c = cells (snd s) c"
  using assms tryMoveBoulderDown_frame [of c a b]
  by (auto simp add: fallCell_def Let_def tryMoveDiamondDown_eq cells_updEntity
      split: option.splits prod.splits) (metis snd_conv)+

lemma fallCell_empty: "getEntity (snd s) a b = None \<Longrightarrow> fallCell a b s = s"
  by (cases s) (simp add: fallCell_def)

lemma fallCell_falls:
  assumes "getEntity g x y = Some e" and "etype e = BOULDER \<or> etype e = DIAMOND"
    and "isValidPosition g x (y + 1)" and "getEntity g x (y + 1) = None"
  shows "fallCell x y (r, g) =
           (r\<lparr>entityMoved := True\<rparr>,
            g\<lparr>cells := (cells g)((x, y) := None,
                 (x, y + 1) := Some (setPosition x (y + 1) (startFalling e)))\<rparr>)"
proof -
  have v: "isValidPosition g x y" "cells g (x, y) = Some e"
    using getEntity_SomeD [OF assms(1)] by simp_all
  let ?g1 = "updEntity g x y startFalling"
  have "getEntity ?g1 x y = Some (startFalling e)"
    using v by (simp add: getEntity_def cells_updEntity)
  moreover have "\<not> isSolid ?g1 x (y + 1)"
    using assms(3,4) by (simp add: isSolid_def getEntity_def cells_updEntity)
  ultimately have m: "moveEntity ?g1 x y x (y + 1) =
      (True, ?g1\<lparr>cells := ((cells ?g1)((x, y) := None))((x, y + 1) := Some (setPosition x (y + 1) (startFalling e)))\<rparr>)"
    using moveEntity_moves [of ?g1 x y x "y + 1" "startFalling e"] v(1) assms(3) by simp
  have t: "tryMoveBoulderDown g e x y =
      (\<lparr>moved = True, playerKilled = False\<rparr>,
       g\<lparr>cells := (cells g)((x, y) := None,
                 (x, y + 1) := Some (setPosition x (y + 1) (startFalling e)))\<rparr>)"
    using assms(3,4) m by (simp add: tryMoveBoulderDown_def Let_def updEntity_def)
  show ?thesis
    using assms(1,2) t by (auto simp add: fallCell_def Let_def tryMoveDiamondDown_eq)
qed

text \<open>The order in which a pass visits the cells, split at one cell.\<close>

lemma scanPass_split:
  assumes "0 \<le> x" "x < w" "0 \<le> y" "y \<le> h - 2"
  shows "scanPass body w h s =
     fold (\<lambda>b. fold (\<lambda>a. body a b) [0..w - 1]) (rev [0..y - 1])
       (fold (\<lambda>a. body a y) [x + 1..w - 1]
          (body x y
             (fold (\<lambda>a. body a y) [0..x - 1]
                (fold (\<lambda>b. fold (\<lambda>a. body a b) [0..w - 1]) (rev [y + 1..h - 2]) s))))"
proof -
  have r: "[0..h - 2] = [0..y - 1] @ y # [y + 1..h - 2]"
    using assms(3,4) by (rule upto_split3)
  have c: "[0..w - 1] = [0..x - 1] @ x # [x + 1..w - 1]"
    using assms(1,2) by (intro upto_split3) auto
  have "fold (\<lambda>a. body a y) [0..w - 1] =
        fold (\<lambda>a. body a y) [x + 1..w - 1] \<circ> body x y \<circ> fold (\<lambda>a. body a y) [0..x - 1]"
    by (subst c) (simp add: comp_def)
  then show ?thesis
    by (simp add: scanPass_def r comp_def)
qed

lemma scanPass_invariant:
  assumes "\<And>a b s. 0 \<le> a \<Longrightarrow> a < w \<Longrightarrow> 0 \<le> b \<Longrightarrow> b \<le> h - 2 \<Longrightarrow> I s \<Longrightarrow> I (body a b s)"
    and "I s"
  shows "I (scanPass body w h s)"
  unfolding scanPass_def
  by (rule rows_invariant [where I = I]) (use assms in auto)

lemma gravityPass_dims [simp]:
  "width (snd (gravityPass g)) = width g" "height (snd (gravityPass g)) = height g"
proof -
  have "width (snd (gravityPass g)) = width g \<and> height (snd (gravityPass g)) = height g"
    unfolding gravityPass_def
    by (rule scanPass_invariant [where I = "\<lambda>s. width (snd s) = width g \<and> height (snd s) = height g"])
       simp_all
  then show "width (snd (gravityPass g)) = width g" "height (snd (gravityPass g)) = height g"
    by simp_all
qed

lemma gravityPass_falls_one_row:
  assumes "getEntity g x y = Some e" and "etype e = BOULDER \<or> etype e = DIAMOND"
    and "isValidPosition g x (y + 1)" and "getEntity g x (y + 1) = None"
  shows "cells (snd (gravityPass g)) (x, y + 1) = Some (setPosition x (y + 1) (startFalling e))"
proof -
  let ?w = "width g" and ?h = "height g"
  let ?e1 = "setPosition x (y + 1) (startFalling e)"
  let ?s0 = "(\<lparr>entityMoved = False, playerDied = False\<rparr>, g)"
  define I1 where "I1 s \<longleftrightarrow> width (snd s) = ?w \<and> height (snd s) = ?h
     \<and> cells (snd s) (x, y) = Some e \<and> cells (snd s) (x, y + 1) = None"
    for s :: "physics_result \<times> game_grid"
  define I2 where "I2 s \<longleftrightarrow> cells (snd s) (x, y + 1) = Some ?e1" for s :: "physics_result \<times> game_grid"
  have v: "isValidPosition g x y" "cells g (x, y) = Some e"
    using getEntity_SomeD [OF assms(1)] by simp_all
  have bounds: "0 \<le> x" "x < ?w" "0 \<le> y" "y \<le> ?h - 2"
    using v(1) assms(3) by (simp_all add: isValidPosition_def)
  have cb: "cells g (x, y + 1) = None" using assms(3,4) by (simp add: getEntity_def)
  have step1: "I1 (fallCell a b s)" if "I1 s" "b > y \<or> (b = y \<and> a < x)" for a b s
  proof (cases "(a, b) = (x, y + 1)")
    case True
    with that(1) have "getEntity (snd s) a b = None" by (simp add: I1_def getEntity_def)
    then show ?thesis using that(1) by (simp add: fallCell_empty)
  next
    case False
    with that show ?thesis
      by (auto simp add: I1_def fallCell_frame)
  qed
  have step2: "I2 (fallCell a b s)" if "I2 s" "b < y \<or> (b = y \<and> a > x)" for a b s
    using that by (auto simp add: I2_def fallCell_frame)
  let ?sA = "fold (\<lambda>b. fold (\<lambda>a. fallCell a b) [0..?w - 1]) (rev [y + 1..?h - 2]) ?s0"
  let ?sB = "fold (\<lambda>a. fallCell a y) [0..x - 1] ?sA"
  let ?sC = "fallCell x y ?sB"
  let ?sD = "fold (\<lambda>a. fallCell a y) [x + 1..?w - 1] ?sC"
  let ?sE = "fold (\<lambda>b. fold (\<lambda>a. fallCell a b) [0..?w - 1]) (rev [0..y - 1]) ?sD"
  have "I1 ?s0" using v cb by (simp add: I1_def)
  then have "I1 ?sA"
    by (rule rows_invariant [where I = I1, rotated]) (auto intro: step1)
  then have B: "I1 ?sB"
    by (rule fold_invariant [where I = I1, rotated]) (auto intro: step1)
  obtain rB gB where sB: "?sB = (rB, gB)" by (cases ?sB)
  from B sB have gB: "width gB = ?w" "height gB = ?h" "cells gB (x, y) = Some e"
    "cells gB (x, y + 1) = None" by (simp_all add: I1_def)
  have "getEntity gB x y = Some e" "isValidPosition gB x (y + 1)" "getEntity gB x (y + 1) = None"
    using gB v(1) assms(3) by (simp_all add: getEntity_def isValidPosition_def)
  from fallCell_falls [OF this(1) assms(2) this(2,3), of rB]
  have "I2 ?sC" by (simp add: sB I2_def)
  then have "I2 ?sD"
    by (rule fold_invariant [where I = I2, rotated]) (auto intro: step2)
  then have "I2 ?sE"
    by (rule rows_invariant [where I = I2, rotated]) (auto intro: step2)
  moreover have "gravityPass g = ?sE"
    unfolding gravityPass_def by (rule scanPass_split [OF bounds])
  ultimately show ?thesis by (simp add: I2_def)
qed

lemma tryRollDirection_dims [simp]:
  "width (snd (tryRollDirection g e x y d)) = width g"
  "height (snd (tryRollDirection g e x y d)) = height g"
  by (auto simp add: tryRollDirection_def Let_def split: option.splits prod.splits)
     (metis moveEntity_dims snd_conv)+

lemma tryRollDirection_keep:
  assumes "cells g c \<noteq> None" and "c \<noteq> (x, y)"
  shows "cells (snd (tryRollDirection g e x y d)) c = cells g c"
proof -
  have "c \<noteq> (x + d, y + 1)"
    if "isValidPosition g (x + d) (y + 1)" "getEntity g (x + d) (y + 1) = None"
    using that assms(1) by (auto simp add: getEntity_def)
  then show ?thesis
    using assms(2) moveEntity_frame [of c x y "x + d" "y + 1" g]
    by (auto simp add: tryRollDirection_def Let_def cells_updEntity split: option.splits prod.splits)
qed

lemma tryRolling_dims [simp]:
  "width (snd (tryRolling g e x y)) = width g"
  "height (snd (tryRolling g e x y)) = height g"
  by (auto simp add: tryRolling_def Let_def split: option.splits prod.splits)
     (metis tryRollDirection_dims snd_conv)+

lemma tryRolling_keep:
  assumes "cells g c \<noteq> None" and "c \<noteq> (x, y)"
  shows "cells (snd (tryRolling g e x y)) c = cells g c"
proof -
  have 1: "cells (snd (tryRollDirection g e x y 1)) c = cells g c"
    using assms by (rule tryRollDirection_keep)
  then have "cells (snd (tryRollDirection g e x y 1)) c \<noteq> None" using assms(1) by simp
  then have 2: "cells (snd (tryRollDirection (snd (tryRollDirection g e x y 1)) e x y (- 1))) c
      = cells g c"
    using assms(2) 1 by (simp add: tryRollDirection_keep)
  show ?thesis
    using 1 2
    by (auto simp add: tryRolling_def Let_def split: option.splits prod.splits)
qed

lemma rollCell_dims [simp]:
  "width (snd (rollCell a b s)) = width (snd s)"
  "height (snd (rollCell a b s)) = height (snd s)"
  by (auto simp add: rollCell_def Let_def split: option.splits prod.splits)
     (metis tryRolling_dims snd_conv)+

lemma rollCell_keep:
  assumes "cells (snd s) c \<noteq> None" and "c \<noteq> (a, b)"
  shows "cells (snd (rollCell a b s)) c = cells (snd s) c"
  using tryRolling_keep [OF _ assms(2), of "snd s"] assms(1)
  by (auto simp add: rollCell_def Let_def split: option.splits prod.splits) (metis snd_conv)+

lemma moveEntity_not_moved:
  "\<not> fst (moveEntity g fx fy tx ty) \<Longrightarrow> snd (moveEntity g fx fy tx ty) = g"
  by (auto simp add: moveEntity_def Let_def split: option.splits if_splits)

lemma tryRollDirection_not_moved:
  "\<not> moved (fst (tryRollDirection g e x y d)) \<Longrightarrow> snd (tryRollDirection g e x y d) = g"
  using moveEntity_not_moved [of g x y "x + d" "y + 1"]
  by (auto simp add: tryRollDirection_def Let_def split: option.splits prod.splits if_splits)

lemma tryRolling_cases:
  assumes "getEntity g x y = Some e" and "etype e = BOULDER \<or> etype e = DIAMOND"
  shows "snd (tryRolling g e x y) = g
       \<or> (\<exists>d. (d = 1 \<or> d = - 1) \<and> isValidPosition g (x + d) (y + 1)
            \<and> snd (tryRolling g e x y) =
                g\<lparr>cells := (cells g)((x, y) := None,
                     (x + d, y + 1) := Some (startFalling (setPosition (x + d) (y + 1) e)))\<rparr>)"
proof -
  note rd = tryRollDirection_eq [OF assms]
  have one: "snd (tryRollDirection g e x y d) = g
       \<or> (isValidPosition g (x + d) (y + 1)
            \<and> snd (tryRollDirection g e x y d) =
                g\<lparr>cells := (cells g)((x, y) := None,
                     (x + d, y + 1) := Some (startFalling (setPosition (x + d) (y + 1) e)))\<rparr>)" for d
    by (subst (1 2) rd) simp
  note nm = tryRollDirection_not_moved [of g e x y 1]
  have "snd (tryRolling g e x y) = g
      \<or> snd (tryRolling g e x y) = snd (tryRollDirection g e x y 1)
      \<or> snd (tryRolling g e x y) = snd (tryRollDirection g e x y (- 1))"
  proof (cases "moved (fst (tryRollDirection g e x y 1))")
    case True
    then show ?thesis
      by (auto simp add: tryRolling_def Let_def split: option.splits prod.splits)
  next
    case False
    with nm have "snd (tryRollDirection g e x y 1) = g" by simp
    with False show ?thesis
      by (auto simp add: tryRolling_def Let_def split: option.splits prod.splits)
  qed
  with one [of 1] one [of "- 1"] show ?thesis by auto
qed

lemma rollCell_cases:
  assumes "getEntity g x y = Some e" and "etype e = BOULDER \<or> etype e = DIAMOND"
  shows "snd (rollCell x y (r, g)) = g
       \<or> (\<exists>d. (d = 1 \<or> d = - 1) \<and> isValidPosition g (x + d) (y + 1)
            \<and> snd (rollCell x y (r, g)) =
                g\<lparr>cells := (cells g)((x, y) := None,
                     (x + d, y + 1) := Some (startFalling (setPosition (x + d) (y + 1) e)))\<rparr>)"
proof -
  have "snd (rollCell x y (r, g)) = snd (tryRolling g e x y)"
    using assms by (auto simp add: rollCell_def Let_def split: prod.splits)
  with tryRolling_cases [OF assms] show ?thesis by simp
qed

lemma updatePhysics_dims [simp]:
  "width (snd (updatePhysics g)) = width g" "height (snd (updatePhysics g)) = height g"
proof -
  have "width (snd (updatePhysics g)) = width g \<and> height (snd (updatePhysics g)) = height g"
    unfolding updatePhysics_def
    by (rule scanPass_invariant [where I = "\<lambda>s. width (snd s) = width g \<and> height (snd s) = height g"])
       simp_all
  then show "width (snd (updatePhysics g)) = width g" "height (snd (updatePhysics g)) = height g"
    by simp_all
qed

lemma rollPass_after_fall:
  fixes s1 :: "physics_result \<times> game_grid"
  assumes "cells (snd s1) (x, y + 1) = Some e1" and "etype e1 = BOULDER \<or> etype e1 = DIAMOND"
    and "isValidPosition (snd s1) x (y + 1)"
    and "w = width (snd s1)" and "h = height (snd s1)"
  shows "cells (snd (scanPass rollCell w h s1)) (x, y + 1) = Some e1
       \<or> (\<exists>d. (d = 1 \<or> d = - 1) \<and> isValidPosition (snd s1) (x + d) (y + 2)
            \<and> cells (snd (scanPass rollCell w h s1)) (x + d, y + 2)
                = Some (startFalling (setPosition (x + d) (y + 2) e1)))"
proof (cases "y + 1 \<le> h - 2")
  case False
  define K where "K s \<longleftrightarrow> cells (snd s) (x, y + 1) = Some e1" for s :: "physics_result \<times> game_grid"
  have "K (scanPass rollCell w h s1)"
  proof (rule scanPass_invariant [where I = K])
    show "K s1" using assms(1) by (simp add: K_def)
  next
    fix a b s assume "b \<le> h - 2" "K s"
    with False show "K (rollCell a b s)" by (auto simp add: K_def rollCell_keep)
  qed
  then show ?thesis by (simp add: K_def)
next
  case True
  define K where "K s \<longleftrightarrow> width (snd s) = w \<and> height (snd s) = h
      \<and> cells (snd s) (x, y + 1) = Some e1" for s :: "physics_result \<times> game_grid"
  define L where "L c v s \<longleftrightarrow> cells (snd s) c = Some v"
    for c v and s :: "physics_result \<times> game_grid"
  have bounds: "0 \<le> x" "x < w" "0 \<le> y + 1" "y + 1 \<le> h - 2"
    using assms(3,4,5) True by (simp_all add: isValidPosition_def)
  have stepK: "K (rollCell a b s)" if "K s" "b > y + 1 \<or> (b = y + 1 \<and> a < x)" for a b s
    using that by (auto simp add: K_def rollCell_keep)
  have stepL: "L c v (rollCell a b s)" if "L c v s" "c \<noteq> (a, b)" for a b s c v
    using that by (auto simp add: L_def rollCell_keep)
  let ?sA = "fold (\<lambda>b. fold (\<lambda>a. rollCell a b) [0..w - 1]) (rev [y + 1 + 1..h - 2]) s1"
  let ?sB = "fold (\<lambda>a. rollCell a (y + 1)) [0..x - 1] ?sA"
  let ?sC = "rollCell x (y + 1) ?sB"
  let ?sD = "fold (\<lambda>a. rollCell a (y + 1)) [x + 1..w - 1] ?sC"
  let ?sE = "fold (\<lambda>b. fold (\<lambda>a. rollCell a b) [0..w - 1]) (rev [0..y + 1 - 1]) ?sD"
  have fin: "scanPass rollCell w h s1 = ?sE" by (rule scanPass_split [OF bounds])
  have after: "L c v ?sE" if "L c v ?sC" "snd c > y + 1 \<or> c = (x, y + 1)" for c v
  proof -
    have "L c v ?sD"
      using that(1)
      by (rule fold_invariant [where I = "L c v", rotated]) (use that(2) in \<open>auto intro!: stepL\<close>)
    then show ?thesis
      by (rule rows_invariant [where I = "L c v", rotated]) (use that(2) in \<open>auto intro!: stepL\<close>)
  qed
  have "K s1" using assms(1,4,5) by (simp add: K_def)
  then have "K ?sA"
    by (rule rows_invariant [where I = K, rotated]) (auto intro: stepK)
  then have B: "K ?sB"
    by (rule fold_invariant [where I = K, rotated]) (auto intro: stepK)
  obtain rB gB where sB: "?sB = (rB, gB)" by (cases ?sB)
  from B sB have gB: "width gB = w" "height gB = h" "cells gB (x, y + 1) = Some e1"
    by (simp_all add: K_def)
  have vB: "isValidPosition gB a b = isValidPosition (snd s1) a b" for a b
    using gB(1,2) assms(4,5) by (simp add: isValidPosition_def)
  have ge: "getEntity gB x (y + 1) = Some e1"
    using gB(3) vB assms(3) by (simp add: getEntity_def)
  from rollCell_cases [OF ge assms(2), of rB]
  consider (stay) "snd (rollCell x (y + 1) (rB, gB)) = gB"
    | (roll) d where "d = 1 \<or> d = - 1" "isValidPosition gB (x + d) (y + 1 + 1)"
        "snd (rollCell x (y + 1) (rB, gB)) =
          gB\<lparr>cells := (cells gB)((x, y + 1) := None,
             (x + d, y + 1 + 1) := Some (startFalling (setPosition (x + d) (y + 1 + 1) e1)))\<rparr>"
    by blast
  then show ?thesis
  proof cases
    case stay
    then have "L (x, y + 1) e1 ?sC" unfolding sB L_def using gB(3) by simp
    then have "L (x, y + 1) e1 ?sE" by (rule after) simp
    then show ?thesis by (simp add: fin L_def)
  next
    case (roll d)
    note d = roll(1) and v = roll(2) and g' = roll(3)
    have "L (x + d, y + 2) (startFalling (setPosition (x + d) (y + 2) e1)) ?sC"
      unfolding sB L_def g' by (simp add: add.assoc)
    then have "L (x + d, y + 2) (startFalling (setPosition (x + d) (y + 2) e1)) ?sE"
      by (rule after) simp
    moreover have "isValidPosition (snd s1) (x + d) (y + 2)"
      using v vB by (simp add: add.assoc)
    ultimately show ?thesis using d by (auto simp add: fin L_def)
  qed
qed

text \<open>
  The two passes of one turn. A boulder or diamond with an empty in-bounds cell below
  is moved exactly one row down by the gravity pass, with its falling flag set. The rolling
  pass visits every boulder and diamond of rows \<open>0\<close> to \<open>height - 2\<close>, whether or not the
  gravity pass has just moved it, so at the end of the turn the entity is either still one
  row below its start or has rolled one diagonal step further, two rows below its start.
\<close>

theorem fall_then_roll_in_one_turn:
  assumes "getEntity g x y = Some e" and "etype e = BOULDER \<or> etype e = DIAMOND"
    and "isValidPosition g x (y + 1)" and "getEntity g x (y + 1) = None"
  shows "getEntity (snd (gravityPass g)) x (y + 1) = Some (setPosition x (y + 1) (startFalling e))
       \<and> (getEntity (snd (updatePhysics g)) x (y + 1) = Some (setPosition x (y + 1) (startFalling e))
          \<or> (\<exists>d. (d = 1 \<or> d = - 1)
               \<and> getEntity (snd (updatePhysics g)) (x + d) (y + 2)
                   = Some (startFalling (setPosition (x + d) (y + 2)
                             (setPosition x (y + 1) (startFalling e))))))"
proof -
  let ?e1 = "setPosition x (y + 1) (startFalling e)"
  let ?s1 = "gravityPass g"
  have c1: "cells (snd ?s1) (x, y + 1) = Some ?e1"
    using assms by (rule gravityPass_falls_one_row)
  have v1: "isValidPosition (snd ?s1) a b = isValidPosition g a b" for a b
    by (simp add: isValidPosition_def)
  have v2: "isValidPosition (snd (updatePhysics g)) a b = isValidPosition g a b" for a b
    by (simp add: isValidPosition_def)
  have g1: "getEntity (snd ?s1) x (y + 1) = Some ?e1"
    using c1 assms(3) v1 by (simp add: getEntity_def)
  have t: "etype ?e1 = BOULDER \<or> etype ?e1 = DIAMOND"
    using assms(2) by (simp add: startFalling_def)
  have "cells (snd (updatePhysics g)) (x, y + 1) = Some ?e1
       \<or> (\<exists>d. (d = 1 \<or> d = - 1) \<and> isValidPosition (snd ?s1) (x + d) (y + 2)
            \<and> cells (snd (updatePhysics g)) (x + d, y + 2)
                = Some (startFalling (setPosition (x + d) (y + 2) ?e1)))"
    unfolding updatePhysics_def
    by (rule rollPass_after_fall [OF c1 t]) (use assms(3) v1 in simp_all)
  then have "getEntity (snd (updatePhysics g)) x (y + 1) = Some ?e1
          \<or> (\<exists>d. (d = 1 \<or> d = - 1)
               \<and> getEntity (snd (updatePhysics g)) (x + d) (y + 2)
                   = Some (startFalling (setPosition (x + d) (y + 2) ?e1)))"
    using assms(3) v1 v2 by (auto simp add: getEntity_def)
  with g1 show ?thesis by blast
qed

theorem fall_then_roll_in_one_turn_witness:
  "show_grid fall_roll_example
     = [Some (BOULDER, 0, 0, False), None, None, None, Some (BOULDER, 0, 2, False), None]
   \<and> getEntity fall_roll_example 0 0 = Some (new_Boulder 0 0)
   \<and> (etype (new_Boulder 0 0) = BOULDER \<or> etype (new_Boulder 0 0) = DIAMOND)
   \<and> isValidPosition fall_roll_example 0 (0 + 1)
   \<and> getEntity fall_roll_example 0 (0 + 1) = None
   \<and> getEntity (snd (gravityPass fall_roll_example)) 0 (0 + 1)
       = Some (setPosition 0 (0 + 1) (startFalling (new_Boulder 0 0)))
   \<and> (getEntity (snd (updatePhysics fall_roll_example)) 0 (0 + 1)
         = Some (setPosition 0 (0 + 1) (startFalling (new_Boulder 0 0)))
       \<or> (\<exists>d. (d = 1 \<or> d = - 1)
            \<and> getEntity (snd (updatePhysics fall_roll_example)) (0 + d) (0 + 2)
                = Some (startFalling (setPosition (0 + d) (0 + 2)
                          (setPosition 0 (0 + 1) (startFalling (new_Boulder 0 0)))))))"
proof -
  have g: "show_grid fall_roll_example
     = [Some (BOULDER, 0, 0, False), None, None, None, Some (BOULDER, 0, 2, False), None]"
    by code_simp
  have h1: "getEntity fall_roll_example 0 0 = Some (new_Boulder 0 0)" by code_simp
  have h2: "etype (new_Boulder 0 0) = BOULDER \<or> etype (new_Boulder 0 0) = DIAMOND" by code_simp
  have h3: "isValidPosition fall_roll_example 0 (0 + 1)" by code_simp
  have h4: "getEntity fall_roll_example 0 (0 + 1) = None" by code_simp
  from g h1 h2 h3 h4 fall_then_roll_in_one_turn [OF h1 h2 h3 h4] show ?thesis by blast
qed

text \<open>
  Claim C2 on the source. A boulder with empty space below, two rows above a resting
  boulder, falls one row in the gravity pass and is then rolled by the second pass of the
  same turn, which visits every boulder and diamond and keeps no record of what the first
  pass moved: the boulder goes from row 0 to row 2, two cells, in one call of
  \<open>updatePhysics\<close>.
\<close>

theorem fallen_entity_rolls_in_same_turn:
  "show_cell (getEntity fall_roll_example 0 0) = Some (BOULDER, 0, 0, False)
   \<and> isValidPosition fall_roll_example 0 1 \<and> getEntity fall_roll_example 0 1 = None
   \<and> show_grid fall_roll_example
       = [Some (BOULDER, 0, 0, False), None, None, None, Some (BOULDER, 0, 2, False), None]
   \<and> show_grid (snd (gravityPass fall_roll_example))
       = [None, None, Some (BOULDER, 0, 1, True), None, Some (BOULDER, 0, 2, False), None]
   \<and> show_grid (snd (updatePhysics fall_roll_example))
       = [None, None, None, None, Some (BOULDER, 0, 2, False), Some (BOULDER, 1, 2, True)]"
  by code_simp

text \<open>
  The floor. \<open>tryMoveBoulderDown\<close> clears the falling flag of an entity whose cell below is
  out of bounds, but a pass never visits the bottom row: whatever the bottom row holds,
  a player apart, is the same after \<open>updatePhysics\<close>.
\<close>

lemma tryMoveBoulderDown_on_floor:
  "\<not> isValidPosition g x (y + 1) \<Longrightarrow>
     tryMoveBoulderDown g e x y = (\<lparr>moved = False, playerKilled = False\<rparr>, updEntity g x y stopFalling)"
  by (simp add: tryMoveBoulderDown_def)

lemma tryMoveBoulderDown_keep:
  assumes "cells g c = Some v" and "etype v \<noteq> PLAYER" and "c \<noteq> (x, y)"
  shows "cells (snd (tryMoveBoulderDown g e x y)) c = cells g c"
proof (cases "c = (x, y + 1)")
  case False
  with assms(3) show ?thesis by (simp add: tryMoveBoulderDown_frame)
next
  case True
  with assms show ?thesis
    by (auto simp add: tryMoveBoulderDown_def Let_def getEntity_def cells_updEntity
        split: option.splits)
qed

lemma fallCell_keep:
  assumes "cells (snd s) c = Some v" and "etype v \<noteq> PLAYER" and "c \<noteq> (a, b)"
  shows "cells (snd (fallCell a b s)) c = cells (snd s) c"
  using tryMoveBoulderDown_keep [OF _ assms(2,3), of "snd s"] assms(1,3)
  by (auto simp add: fallCell_def Let_def tryMoveDiamondDown_eq cells_updEntity
      split: option.splits prod.splits) (metis snd_conv)+

lemma bottom_row_never_updated:
  assumes "cells g (x, height g - 1) = Some v" and "etype v \<noteq> PLAYER"
  shows "cells (snd (updatePhysics g)) (x, height g - 1) = Some v"
proof -
  define K where "K s \<longleftrightarrow> cells (snd s) (x, height g - 1) = Some v"
    for s :: "physics_result \<times> game_grid"
  have 1: "K (gravityPass g)"
    unfolding gravityPass_def
  proof (rule scanPass_invariant [where I = K])
    show "K (\<lparr>entityMoved = False, playerDied = False\<rparr>, g)" using assms(1) by (simp add: K_def)
  next
    fix a b s assume "b \<le> height g - 2" "K s"
    then show "K (fallCell a b s)"
      using assms(2) fallCell_keep [of s "(x, height g - 1)" v a b] by (auto simp add: K_def)
  qed
  have "K (updatePhysics g)"
    unfolding updatePhysics_def
  proof (rule scanPass_invariant [where I = K])
    show "K (gravityPass g)" by (rule 1)
  next
    fix a b s assume "b \<le> height g - 2" "K s"
    then show "K (rollCell a b s)"
      using rollCell_keep [of s "(x, height g - 1)" a b] by (auto simp add: K_def)
  qed
  then show ?thesis by (simp add: K_def)
qed

text \<open>
  Claim C4 on the source. In a shaft one cell wide and three high a boulder reaches the
  bottom row after two turns with its falling flag set; the cell below it is out of bounds;
  after the third turn the flag is still set. Both passes start at row \<open>height - 2\<close>, so
  the branch of \<open>tryMoveBoulderDown\<close> that clears the flag at the floor
  (\<open>tryMoveBoulderDown_on_floor\<close>) is never reached, and nothing in the bottom row but a
  player is ever updated (\<open>bottom_row_never_updated\<close>).
\<close>

theorem floor_boulder_stays_falling:
  "\<not> isValidPosition shaft_example 0 3
   \<and> show_cell (getEntity (snd (updatePhysics shaft_example)) 0 1) = Some (BOULDER, 0, 1, True)
   \<and> show_cell (getEntity (snd (updatePhysics (snd (updatePhysics shaft_example)))) 0 2)
       = Some (BOULDER, 0, 2, True)
   \<and> show_cell (getEntity (snd (updatePhysics (snd (updatePhysics (snd (updatePhysics shaft_example)))))) 0 2)
       = Some (BOULDER, 0, 2, True)"
  by code_simp

subsection \<open>Turn scheduler\<close>

text \<open>Nothing in a turn touches the countdown or the turn counter.\<close>

lemma handlePlayerDeath_clock [simp]:
  "timeRemaining (handlePlayerDeath s) = timeRemaining s"
  "currentTurn (handlePlayerDeath s) = currentTurn s"
  by (simp_all add: handlePlayerDeath_def emitEvent_def Let_def)

lemma resetAllEntityAnimations_clock [simp]:
  "timeRemaining (resetAllEntityAnimations s) = timeRemaining s"
  "currentTurn (resetAllEntityAnimations s) = currentTurn s"
  by (simp_all add: resetAllEntityAnimations_def setGrid_def)

lemma processMovement_clock [simp]:
  "timeRemaining (processMovement dir s) = timeRemaining s"
  "currentTurn (processMovement dir s) = currentTurn s"
  by (simp_all add: processMovement_def setGrid_def emitEvent_def Let_def split: prod.splits)

lemma enginePhysics_clock [simp]:
  "timeRemaining (enginePhysics s) = timeRemaining s"
  "currentTurn (enginePhysics s) = currentTurn s"
  by (simp_all add: enginePhysics_def setGrid_def Let_def split: prod.splits)

lemma checkGameConditions_clock [simp]:
  "timeRemaining (checkGameConditions s) = timeRemaining s"
  "currentTurn (checkGameConditions s) = currentTurn s"
  by (simp_all add: checkGameConditions_def emitEvent_def Let_def)

lemma processTurn_clock [simp]:
  "timeRemaining (processTurn s tAction tClear) = timeRemaining s"
  "currentTurn (processTurn s tAction tClear) = currentTurn s"
  by (simp_all add: processTurn_def Let_def split: option.splits)

lemma turnPhase_clock:
  "timeRemaining (turnPhase s currentTime tAction tClear) = timeRemaining s"
  "currentTurn (turnPhase s currentTime tAction tClear) =
     (if currentTime - lastTurnTime s \<ge> TURN_DURATION_MS then currentTurn s + 1 else currentTurn s)"
  by (simp_all add: turnPhase_def Let_def)

text \<open>
  Claim C9, as the source has it. A call of \<open>update\<close> while playing and not paused first
  runs the turn phase (the turn itself when 200 ms have passed since the last one, which
  then advances the turn counter), which leaves the countdown alone; then the countdown
  decreases by \<open>deltaTime\<close>. When it stays positive nothing else happens. When it reaches
  zero the time-up rule is the last step of the call, after any turn of that call: with a
  life left after the decrement the countdown is reset to the level's time limit,
  \<open>LIFE_LOST\<close> is emitted and \<open>isPlaying\<close> stays as the turn phase left it; otherwise
  \<open>isPlaying\<close> becomes false and \<open>GAME_OVER\<close> is emitted.
\<close>

theorem update_runs_turn_then_timer:
  assumes "isPlaying s" and "\<not> isPaused s"
    and "s1 = turnPhase s currentTime tAction tClear"
    and "s' = update s deltaTime currentTime tAction tClear"
  shows "timeRemaining s1 = timeRemaining s
       \<and> currentTurn s' =
           (if currentTime - lastTurnTime s \<ge> TURN_DURATION_MS then currentTurn s + 1 else currentTurn s)
       \<and> (currentTime - lastTurnTime s < TURN_DURATION_MS \<longrightarrow>
            s1 = s\<lparr>turnProgress :=
                     min (real_of_int (currentTime - lastTurnTime s) / real_of_int TURN_DURATION_MS) 1\<rparr>)
       \<and> (timeRemaining s - deltaTime > 0 \<longrightarrow>
            s' = s1\<lparr>timeRemaining := timeRemaining s - deltaTime\<rparr>)
       \<and> (timeRemaining s - deltaTime \<le> 0 \<and> lives s1 - 1 > 0 \<longrightarrow>
            s' = s1\<lparr>timeRemaining := timeLimit (level s1), lives := lives s1 - 1,
                    events := events s1 @ [LIFE_LOST]\<rparr>
            \<and> isPlaying s' = isPlaying s1)
       \<and> (timeRemaining s - deltaTime \<le> 0 \<and> lives s1 - 1 \<le> 0 \<longrightarrow>
            s' = s1\<lparr>timeRemaining := timeRemaining s - deltaTime, lives := lives s1 - 1,
                    isPlaying := False, events := events s1 @ [GAME_OVER]\<rparr>)"
proof -
  have t: "timeRemaining s1 = timeRemaining s" by (simp add: assms(3) turnPhase_clock)
  have u: "s' = (let s2 = s1\<lparr>timeRemaining := timeRemaining s1 - deltaTime\<rparr>
                 in if timeRemaining s2 \<le> 0 then handleTimeUp s2 else s2)"
    using assms by (simp add: update_def Let_def)
  have c: "currentTurn s' =
           (if currentTime - lastTurnTime s \<ge> TURN_DURATION_MS then currentTurn s + 1 else currentTurn s)"
    using turnPhase_clock(2) [of s currentTime tAction tClear]
    by (simp add: u assms(3) Let_def handleTimeUp_def emitEvent_def)
  have n: "currentTime - lastTurnTime s < TURN_DURATION_MS \<longrightarrow>
            s1 = s\<lparr>turnProgress :=
                     min (real_of_int (currentTime - lastTurnTime s) / real_of_int TURN_DURATION_MS) 1\<rparr>"
    by (simp add: assms(3) turnPhase_def Let_def)
  have a: "timeRemaining s - deltaTime > 0 \<longrightarrow> s' = s1\<lparr>timeRemaining := timeRemaining s - deltaTime\<rparr>"
    by (simp add: u t Let_def)
  have b: "timeRemaining s - deltaTime \<le> 0 \<and> lives s1 - 1 > 0 \<longrightarrow>
            s' = s1\<lparr>timeRemaining := timeLimit (level s1), lives := lives s1 - 1,
                    events := events s1 @ [LIFE_LOST]\<rparr>
            \<and> isPlaying s' = isPlaying s1"
    by (simp add: u t Let_def handleTimeUp_def emitEvent_def)
  have d: "timeRemaining s - deltaTime \<le> 0 \<and> lives s1 - 1 \<le> 0 \<longrightarrow>
            s' = s1\<lparr>timeRemaining := timeRemaining s - deltaTime, lives := lives s1 - 1,
                    isPlaying := False, events := events s1 @ [GAME_OVER]\<rparr>"
    by (simp add: u t Let_def handleTimeUp_def emitEvent_def)
  from t c n a b d show ?thesis by blast
qed

theorem update_runs_turn_then_timer_witness:
  "isPlaying timeup_state \<and> \<not> isPaused timeup_state
   \<and> 120000 - lastTurnTime timeup_state \<ge> TURN_DURATION_MS
   \<and> timeRemaining timeup_state - 120 \<le> 0
   \<and> lives (turnPhase timeup_state 120000 120000 120000) - 1 > 0
   \<and> currentTurn (update timeup_state 120 120000 120000 120000) = currentTurn timeup_state + 1
   \<and> update timeup_state 120 120000 120000 120000 =
       (turnPhase timeup_state 120000 120000 120000)
         \<lparr>timeRemaining := timeLimit (level (turnPhase timeup_state 120000 120000 120000)),
          lives := lives (turnPhase timeup_state 120000 120000 120000) - 1,
          events := events (turnPhase timeup_state 120000 120000 120000) @ [LIFE_LOST]\<rparr>
   \<and> 16 - lastTurnTime timeup_state < TURN_DURATION_MS
   \<and> timeRemaining timeup_state - 2 > 0
   \<and> turnPhase timeup_state 16 16 16 =
       timeup_state\<lparr>turnProgress :=
          min (real_of_int (16 - lastTurnTime timeup_state) / real_of_int TURN_DURATION_MS) 1\<rparr>
   \<and> update timeup_state 2 16 16 16 =
       (turnPhase timeup_state 16 16 16)\<lparr>timeRemaining := timeRemaining timeup_state - 2\<rparr>
   \<and> isPlaying last_life_state \<and> \<not> isPaused last_life_state
   \<and> timeRemaining last_life_state - 120 \<le> 0
   \<and> lives (turnPhase last_life_state 16 16 16) - 1 \<le> 0
   \<and> update last_life_state 120 16 16 16 =
       (turnPhase last_life_state 16 16 16)
         \<lparr>timeRemaining := timeRemaining last_life_state - 120,
          lives := lives (turnPhase last_life_state 16 16 16) - 1,
          isPlaying := False,
          events := events (turnPhase last_life_state 16 16 16) @ [GAME_OVER]\<rparr>"
proof -
  have h1: "isPlaying timeup_state" by code_simp
  have h2: "\<not> isPaused timeup_state" by code_simp
  have h3: "120000 - lastTurnTime timeup_state \<ge> TURN_DURATION_MS" by code_simp
  have h4: "timeRemaining timeup_state - 120 \<le> 0" by code_simp
  have h5: "lives (turnPhase timeup_state 120000 120000 120000) - 1 > 0" by code_simp
  have h6: "16 - lastTurnTime timeup_state < TURN_DURATION_MS" by code_simp
  have h7: "timeRemaining timeup_state - 2 > 0" by code_simp
  have k1: "isPlaying last_life_state" by code_simp
  have k2: "\<not> isPaused last_life_state" by code_simp
  have k4: "timeRemaining last_life_state - 120 \<le> 0" by code_simp
  have k5: "lives (turnPhase last_life_state 16 16 16) - 1 \<le> 0" by code_simp
  note th = update_runs_turn_then_timer [OF h1 h2 refl refl, of 120000 120000 120000 120]
  from th have "currentTurn (update timeup_state 120 120000 120000 120000) =
      (if 120000 - lastTurnTime timeup_state \<ge> TURN_DURATION_MS
       then currentTurn timeup_state + 1 else currentTurn timeup_state)"
    by blast
  with h3 have c1: "currentTurn (update timeup_state 120 120000 120000 120000)
      = currentTurn timeup_state + 1"
    by (simp only: if_True)
  from th h4 h5 have c2: "update timeup_state 120 120000 120000 120000 =
       (turnPhase timeup_state 120000 120000 120000)
         \<lparr>timeRemaining := timeLimit (level (turnPhase timeup_state 120000 120000 120000)),
          lives := lives (turnPhase timeup_state 120000 120000 120000) - 1,
          events := events (turnPhase timeup_state 120000 120000 120000) @ [LIFE_LOST]\<rparr>"
    by blast
  from h1 h2 h3 h4 h5 h6 h7 k1 k2 k4 k5 c1 c2
    update_runs_turn_then_timer [OF h1 h2 refl refl, of 16 16 16 2]
    update_runs_turn_then_timer [OF k1 k2 refl refl, of 16 16 16 120]
  show ?thesis by blast
qed

text \<open>
  Claim C9 as stated fails: in one call of \<open>update\<close> the countdown reaches zero (a life is
  lost, the countdown is reset, \<open>LIFE_LOST\<close> is emitted) and a turn is executed (the turn
  counter advances and the boulder falls one row).
\<close>

theorem turn_runs_in_the_time_up_call:
  "isPlaying timeup_state \<and> \<not> isPaused timeup_state
   \<and> lives timeup_state = 3 \<and> timeRemaining timeup_state = 120 \<and> currentTurn timeup_state = 0
   \<and> show_grid (grid (level timeup_state))
       = [Some (PLAYER, 0, 0, False), Some (BOULDER, 1, 0, False), None, None]
   \<and> lives timeup_after = 2 \<and> timeRemaining timeup_after = 120
   \<and> events timeup_after = [LIFE_LOST] \<and> isPlaying timeup_after
   \<and> currentTurn timeup_after = 1
   \<and> show_grid (grid (level timeup_after))
       = [Some (PLAYER, 0, 0, False), None, None, Some (BOULDER, 1, 1, True)]"
  by code_simp


end
